theory Spec2Isabelle
  imports Complex_Main "HOL-Library.AList"
begin

section \<open>JavaScript values, objects and errors\<close>

text \<open>
  The values that flow between the Neo4j driver, the service and the view. A node is the
  driver's \<^verbatim>\<open>Node\<close> object: its \<^verbatim>\<open>identity\<close> (a plain JavaScript number, since
  the driver is created with \<^verbatim>\<open>disableLosslessIntegers: true\<close>) and its \<^verbatim>\<open>properties\<close>
  object. Objects are association lists in insertion order.
\<close>

datatype jsval =
    JUndefined
  | JNull
  | JBool bool
  | JNum int
  | JStr string
  | JArr "jsval list"
  | JNode int "(string \<times> jsval) list"

type_synonym jsobj = "(string \<times> jsval) list"

text \<open>Truthiness, as \<^verbatim>\<open>if (v)\<close> and \<^verbatim>\<open>v && ...\<close> test it.\<close>

fun truthy :: "jsval \<Rightarrow> bool" where
  "truthy JUndefined = False"
| "truthy JNull = False"
| "truthy (JBool b) = b"
| "truthy (JNum n) = (n \<noteq> 0)"
| "truthy (JStr s) = (s \<noteq> [])"
| "truthy (JArr xs) = True"
| "truthy (JNode i ps) = True"

text \<open>\<^verbatim>\<open>typeof v === 'string'\<close>\<close>

fun typeof_string :: "jsval \<Rightarrow> bool" where
  "typeof_string (JStr s) = True"
| "typeof_string v = False"

text \<open>
  Property read \<^verbatim>\<open>obj.key\<close> (an absent key reads as \<^verbatim>\<open>undefined\<close>), property
  definition in an object literal, and the spread \<^verbatim>\<open>{...props}\<close>, which defines the
  properties of \<^verbatim>\<open>props\<close> one after the other: a key that the literal already holds
  keeps its place and takes the new value.
\<close>

definition obj_get :: "jsobj \<Rightarrow> string \<Rightarrow> jsval" where
  "obj_get obj key = (case map_of obj key of None \<Rightarrow> JUndefined | Some v \<Rightarrow> v)"

definition obj_set :: "string \<Rightarrow> jsval \<Rightarrow> jsobj \<Rightarrow> jsobj" where
  "obj_set key v obj = AList.update key v obj"

fun obj_spread :: "jsobj \<Rightarrow> jsobj \<Rightarrow> jsobj" where
  "obj_spread obj [] = obj"
| "obj_spread obj ((key, v) # props) = obj_spread (obj_set key v obj) props"

text \<open>
  \<^verbatim>\<open>Number.prototype.toString()\<close> on an integral number: the decimal digits, with a
  minus sign for a negative number (JavaScript prints integers of magnitude below
  \<open>10\<^sup>2\<^sup>1\<close> this way).
\<close>

definition digit_char :: "nat \<Rightarrow> char" where
  "digit_char n = char_of (48 + n)"

function dec_digits :: "nat \<Rightarrow> string" where
  "dec_digits n = (if n < 10 then [digit_char n] else dec_digits (n div 10) @ [digit_char (n mod 10)])"
  by pat_completeness auto
termination
  by (relation "measure (\<lambda>n. n)") auto

definition toString :: "int \<Rightarrow> string" where
  "toString i = (if i < 0 then CHR ''-'' # dec_digits (nat (- i)) else dec_digits (nat i))"

text \<open>
  A thrown value: the \<^verbatim>\<open>code\<close> the driver sets on its errors (absent on a plain
  \<^verbatim>\<open>Error\<close>) and the \<^verbatim>\<open>message\<close>.
\<close>

record js_error =
  err_code :: "string option"
  err_message :: string

text \<open>\<^verbatim>\<open>new Error(message)\<close>\<close>

definition Error :: "string \<Rightarrow> js_error" where
  "Error m = \<lparr>err_code = None, err_message = m\<rparr>"

text \<open>
  Reading a property of \<^verbatim>\<open>null\<close> or \<^verbatim>\<open>undefined\<close> throws a \<^verbatim>\<open>TypeError\<close>; the
  wording of its message is the engine's (V8's is used here).
\<close>

definition TypeError_reading :: "string \<Rightarrow> string \<Rightarrow> js_error" where
  "TypeError_reading what prop =
     Error (''Cannot read properties of '' @ what @ '' (reading '' @ [CHR 0x27] @ prop @ [CHR 0x27] @ '')'')"

section \<open>The Neo4j driver\<close>

text \<open>
  The driver and the database behind it are outside the repository. They are a parameter
  of the model: a record of the calls the service makes, each a function of the state
  \<open>'w\<close> of the outside world (database, connections) that returns the call's outcome and
  the new state. A call that throws or rejects returns \<open>Inl\<close> of the error.
  A session is identified by the configuration it was created with.
  \<^verbatim>\<open>session.close()\<close> is taken to resolve; \<^verbatim>\<open>console.log\<close>, \<^verbatim>\<open>console.error\<close> and
  \<^verbatim>\<open>JSON.stringify\<close> only print and are left out.
\<close>

datatype access_mode = READ | WRITE

record session_config =
  database :: string
  defaultAccessMode :: access_mode

type_synonym neo_record = "(string \<times> jsval) list"

type_synonym query_params = "(string \<times> int) list"

record 'w driver =
  drv_session :: "session_config \<Rightarrow> 'w \<Rightarrow> (js_error + unit) \<times> 'w"
  drv_run :: "session_config \<Rightarrow> string \<Rightarrow> query_params \<Rightarrow> 'w \<Rightarrow> (js_error + neo_record list) \<times> 'w"
  drv_verifyConnectivity :: "'w \<Rightarrow> (js_error + unit) \<times> 'w"
  drv_session_close :: "session_config \<Rightarrow> 'w \<Rightarrow> 'w"
  neo4j_int :: "jsval \<Rightarrow> js_error + int"

text \<open>
  The module \<^verbatim>\<open>../config/neo4j.config\<close> is not among the sources; its exported object
  is a parameter.
\<close>

record neo4jConfig =
  uri :: string
  user :: string
  password :: string
  config_database :: string

text \<open>
  What the service did to the driver, in order. A \<open>Run\<close> event records the session, the
  query text, the bound parameters and whether the query succeeded.
\<close>

datatype event =
    SessionOpened session_config
  | SessionFailed session_config
  | Run session_config string query_params bool
  | VerifyConnectivity bool
  | SessionClosed session_config

type_synonym 'w st = "'w \<times> event list"

text \<open>
  \<^verbatim>\<open>Record.get(key)\<close> of the driver throws when the record has no such field. The
  error is the driver's \<^verbatim>\<open>newError(message)\<close>, whose code is \<^verbatim>\<open>'N/A'\<close>; the message
  names the key and lists the keys of the record (\<^verbatim>\<open>this.keys.toString()\<close>, the keys
  joined by commas).
\<close>

definition newError :: "string \<Rightarrow> js_error" where
  "newError m = \<lparr>err_code = Some ''N/A'', err_message = m\<rparr>"

fun join_comma :: "string list \<Rightarrow> string" where
  "join_comma [] = []"
| "join_comma [k] = k"
| "join_comma (k # ks) = k @ '','' @ join_comma ks"

definition record_get :: "neo_record \<Rightarrow> string \<Rightarrow> js_error + jsval" where
  "record_get r key =
     (case map_of r key of
        None \<Rightarrow>
          Inl (newError (''This record has no field with key '' @ [CHR 0x27] @ key @ [CHR 0x27]
                 @ '', available keys are: ['' @ join_comma (map fst r) @ ''].''))
      | Some v \<Rightarrow> Inr v)"

text \<open>\<^verbatim>\<open>records[0]?.get(key)\<close>: \<^verbatim>\<open>undefined\<close> when there is no first record.\<close>

definition first_record_get :: "neo_record list \<Rightarrow> string \<Rightarrow> js_error + jsval" where
  "first_record_get records key =
     (case records of [] \<Rightarrow> Inr JUndefined | r # rest \<Rightarrow> record_get r key)"

text \<open>\<^verbatim>\<open>node.properties\<close> and \<^verbatim>\<open>node.identity.toString()\<close> on whatever the record held.\<close>

fun node_properties :: "jsval \<Rightarrow> js_error + jsobj" where
  "node_properties (JNode i props) = Inr props"
| "node_properties JUndefined = Inl (TypeError_reading ''undefined'' ''properties'')"
| "node_properties JNull = Inl (TypeError_reading ''null'' ''properties'')"
| "node_properties v = Inr []"

fun node_identity_toString :: "jsval \<Rightarrow> js_error + string" where
  "node_identity_toString (JNode i props) = Inr (toString i)"
| "node_identity_toString JUndefined = Inl (TypeError_reading ''undefined'' ''identity'')"
| "node_identity_toString JNull = Inl (TypeError_reading ''null'' ''identity'')"
| "node_identity_toString v = Inl (TypeError_reading ''undefined'' ''toString'')"

text \<open>\<^verbatim>\<open>Array.prototype.map\<close> with a callback that may throw: the first throw ends it.\<close>

fun map_throwing :: "('a \<Rightarrow> js_error + 'b) \<Rightarrow> 'a list \<Rightarrow> js_error + 'b list" where
  "map_throwing f [] = Inr []"
| "map_throwing f (x # xs) =
     (case f x of
        Inl e \<Rightarrow> Inl e
      | Inr y \<Rightarrow> (case map_throwing f xs of Inl e \<Rightarrow> Inl e | Inr ys \<Rightarrow> Inr (y # ys)))"

section \<open>The service: \<^verbatim>\<open>Neo4jService\<close>\<close>

definition getSession :: "neo4jConfig \<Rightarrow> 'w driver \<Rightarrow> 'w st \<Rightarrow> (js_error + session_config) \<times> 'w st" where
  "getSession conf d s =
     (let cfg = \<lparr>database = config_database conf, defaultAccessMode = READ\<rparr> in
      case drv_session d cfg (fst s) of
        (Inl error, w) \<Rightarrow> (Inl error, (w, snd s @ [SessionFailed cfg]))
      | (Inr u, w) \<Rightarrow> (Inr cfg, (w, snd s @ [SessionOpened cfg])))"

definition session_run ::
  "'w driver \<Rightarrow> session_config \<Rightarrow> string \<Rightarrow> query_params \<Rightarrow> 'w st \<Rightarrow> (js_error + neo_record list) \<times> 'w st" where
  "session_run d session q ps s =
     (case drv_run d session q ps (fst s) of
        (r, w) \<Rightarrow> (r, (w, snd s @ [Run session q ps (\<not> isl r)])))"

definition verifyConnectivity :: "'w driver \<Rightarrow> 'w st \<Rightarrow> (js_error + unit) \<times> 'w st" where
  "verifyConnectivity d s =
     (case drv_verifyConnectivity d (fst s) of
        (r, w) \<Rightarrow> (r, (w, snd s @ [VerifyConnectivity (\<not> isl r)])))"

definition session_close :: "'w driver \<Rightarrow> session_config \<Rightarrow> 'w st \<Rightarrow> 'w st" where
  "session_close d session s = (drv_session_close d session (fst s), snd s @ [SessionClosed session])"

subsection \<open>\<^verbatim>\<open>verifyConnection\<close>\<close>

definition return_1_query :: string where
  "return_1_query = ''RETURN 1 as n''"

definition components_query :: string where
  "components_query = ''CALL dbms.components() YIELD name, versions, edition RETURN *''"

definition verifyConnection_try :: "'w driver \<Rightarrow> session_config \<Rightarrow> 'w st \<Rightarrow> (js_error + bool) \<times> 'w st" where
  "verifyConnection_try d session s =
     (case session_run d session return_1_query [] s of
        (Inl e, s1) \<Rightarrow> (Inl e, s1)
      | (Inr result, s1) \<Rightarrow>
          (case verifyConnectivity d s1 of
             (Inl e, s2) \<Rightarrow> (Inl e, s2)
           | (Inr serverInfo, s2) \<Rightarrow>
               (case session_run d session components_query [] s2 of
                  (Inl e, s3) \<Rightarrow> (Inl e, s3)
                | (Inr dbInfo, s3) \<Rightarrow> (Inr True, s3))))"

definition verifyConnection_catch :: "js_error \<Rightarrow> js_error" where
  "verifyConnection_catch error =
     (if err_code error = Some ''ServiceUnavailable'' then
        Error ''Neo4j service is not available. Please check if the database is running and port 7687 is accessible.''
      else if err_code error = Some ''SecurityError'' then
        Error ''Authentication failed. Please check your credentials.''
      else Error (''Connection verification failed: '' @ err_message error))"

definition verifyConnection :: "neo4jConfig \<Rightarrow> 'w driver \<Rightarrow> 'w st \<Rightarrow> (js_error + bool) \<times> 'w st" where
  "verifyConnection conf d s =
     (case getSession conf d s of
        (Inl e, s0) \<Rightarrow> (Inl e, s0)
      | (Inr session, s0) \<Rightarrow>
          (case verifyConnection_try d session s0 of
             (Inl error, s1) \<Rightarrow> (Inl (verifyConnection_catch error), session_close d session s1)
           | (Inr b, s1) \<Rightarrow> (Inr b, session_close d session s1)))"

subsection \<open>\<^verbatim>\<open>getAllPapers\<close>\<close>

definition labels_query :: string where
  "labels_query = ''CALL db.labels() YIELD label'' @ [CHR 0x0A] @ ''         RETURN collect(label) as labels''"

definition all_nodes_query :: string where
  "all_nodes_query = ''MATCH (n)'' @ [CHR 0x0A] @ ''         RETURN n, labels(n) as labels''"

text \<open>The callback of \<^verbatim>\<open>result.records.map\<close> in \<^verbatim>\<open>getAllPapers\<close>.\<close>

definition paper_of_record :: "neo_record \<Rightarrow> js_error + jsobj" where
  "paper_of_record record =
     (case record_get record ''n'' of
        Inl e \<Rightarrow> Inl e
      | Inr node \<Rightarrow>
          (case node_properties node of
             Inl e \<Rightarrow> Inl e
           | Inr properties \<Rightarrow>
               (case record_get record ''labels'' of
                  Inl e \<Rightarrow> Inl e
                | Inr labels \<Rightarrow>
                    (case node_identity_toString node of
                       Inl e \<Rightarrow> Inl e
                     | Inr ident \<Rightarrow>
                         Inr (obj_set ''labels'' labels
                                (obj_spread [(''id'', JStr ident)] properties))))))"

definition getAllPapers_try :: "'w driver \<Rightarrow> session_config \<Rightarrow> 'w st \<Rightarrow> (js_error + jsobj list) \<times> 'w st" where
  "getAllPapers_try d session s =
     (case session_run d session labels_query [] s of
        (Inl e, s1) \<Rightarrow> (Inl e, s1)
      | (Inr labelsRecords, s1) \<Rightarrow>
          (case first_record_get labelsRecords ''labels'' of
             Inl e \<Rightarrow> (Inl e, s1)
           | Inr labels \<Rightarrow>
               (case session_run d session all_nodes_query [] s1 of
                  (Inl e, s2) \<Rightarrow> (Inl e, s2)
                | (Inr records, s2) \<Rightarrow> (map_throwing paper_of_record records, s2))))"

definition getAllPapers :: "neo4jConfig \<Rightarrow> 'w driver \<Rightarrow> 'w st \<Rightarrow> (js_error + jsobj list) \<times> 'w st" where
  "getAllPapers conf d s =
     (case getSession conf d s of
        (Inl e, s0) \<Rightarrow> (Inl e, s0)
      | (Inr session, s0) \<Rightarrow>
          (case getAllPapers_try d session s0 of
             (Inl error, s1) \<Rightarrow>
               (Inl (Error (''Failed to fetch papers: '' @ err_message error)), session_close d session s1)
           | (Inr papers, s1) \<Rightarrow> (Inr papers, session_close d session s1)))"

subsection \<open>\<^verbatim>\<open>getPaperDetails\<close>\<close>

definition paper_details_query :: string where
  "paper_details_query =
     ''MATCH (n)'' @ [CHR 0x0A] @ ''         WHERE id(n) = $paperId'' @ [CHR 0x0A] @ ''         RETURN n''"

text \<open>\<^verbatim>\<open>{ id: node.identity.toString(), ...node.properties }\<close>\<close>

definition object_of_node :: "jsval \<Rightarrow> js_error + jsobj" where
  "object_of_node node =
     (case node_identity_toString node of
        Inl e \<Rightarrow> Inl e
      | Inr ident \<Rightarrow>
          (case node_properties node of
             Inl e \<Rightarrow> Inl e
           | Inr properties \<Rightarrow> Inr (obj_spread [(''id'', JStr ident)] properties)))"

text \<open>The result is \<open>None\<close> for \<^verbatim>\<open>null\<close>.\<close>

definition getPaperDetails_try ::
  "'w driver \<Rightarrow> session_config \<Rightarrow> jsval \<Rightarrow> 'w st \<Rightarrow> (js_error + jsobj option) \<times> 'w st" where
  "getPaperDetails_try d session paperId s =
     (case neo4j_int d paperId of
        Inl e \<Rightarrow> (Inl e, s)
      | Inr pid \<Rightarrow>
          (case session_run d session paper_details_query [(''paperId'', pid)] s of
             (Inl e, s1) \<Rightarrow> (Inl e, s1)
           | (Inr records, s1) \<Rightarrow>
               (case first_record_get records ''n'' of
                  Inl e \<Rightarrow> (Inl e, s1)
                | Inr paper \<Rightarrow>
                    (if truthy paper then
                       (case object_of_node paper of
                          Inl e \<Rightarrow> (Inl e, s1)
                        | Inr obj \<Rightarrow> (Inr (Some obj), s1))
                     else (Inr None, s1)))))"

definition getPaperDetails ::
  "neo4jConfig \<Rightarrow> 'w driver \<Rightarrow> jsval \<Rightarrow> 'w st \<Rightarrow> (js_error + jsobj option) \<times> 'w st" where
  "getPaperDetails conf d paperId s =
     (case getSession conf d s of
        (Inl e, s0) \<Rightarrow> (Inl e, s0)
      | (Inr session, s0) \<Rightarrow>
          (case getPaperDetails_try d session paperId s0 of
             (Inl error, s1) \<Rightarrow>
               (Inl (Error (''Failed to fetch paper details: '' @ err_message error)), session_close d session s1)
           | (Inr paper, s1) \<Rightarrow> (Inr paper, session_close d session s1)))"

subsection \<open>\<^verbatim>\<open>getRelatedPapers\<close>\<close>

definition related_papers_query :: string where
  "related_papers_query =
     ''MATCH (n)-[r]-(related)'' @ [CHR 0x0A] @ ''         WHERE id(n) = $paperId'' @ [CHR 0x0A]
       @ ''         RETURN related'' @ [CHR 0x0A] @ ''         LIMIT 10''"

definition related_of_record :: "neo_record \<Rightarrow> js_error + jsobj" where
  "related_of_record record =
     (case record_get record ''related'' of
        Inl e \<Rightarrow> Inl e
      | Inr node \<Rightarrow> object_of_node node)"

definition getRelatedPapers_try ::
  "'w driver \<Rightarrow> session_config \<Rightarrow> jsval \<Rightarrow> 'w st \<Rightarrow> (js_error + jsobj list) \<times> 'w st" where
  "getRelatedPapers_try d session paperId s =
     (case neo4j_int d paperId of
        Inl e \<Rightarrow> (Inl e, s)
      | Inr pid \<Rightarrow>
          (case session_run d session related_papers_query [(''paperId'', pid)] s of
             (Inl e, s1) \<Rightarrow> (Inl e, s1)
           | (Inr records, s1) \<Rightarrow> (map_throwing related_of_record records, s1)))"

definition getRelatedPapers ::
  "neo4jConfig \<Rightarrow> 'w driver \<Rightarrow> jsval \<Rightarrow> 'w st \<Rightarrow> (js_error + jsobj list) \<times> 'w st" where
  "getRelatedPapers conf d paperId s =
     (case getSession conf d s of
        (Inl e, s0) \<Rightarrow> (Inl e, s0)
      | (Inr session, s0) \<Rightarrow>
          (case getRelatedPapers_try d session paperId s0 of
             (Inl error, s1) \<Rightarrow>
               (Inl (Error (''Failed to fetch related papers: '' @ err_message error)), session_close d session s1)
           | (Inr papers, s1) \<Rightarrow> (Inr papers, session_close d session s1)))"

section \<open>The view: \<^verbatim>\<open>StarView\<close>\<close>

text \<open>
  The state of the component (its five \<^verbatim>\<open>useState\<close> cells). \<^verbatim>\<open>error\<close> and
  \<^verbatim>\<open>lastFetchTime\<close> start as \<^verbatim>\<open>null\<close> (\<open>None\<close>); times are the integral milliseconds
  of \<^verbatim>\<open>Date.now()\<close>.
\<close>

record star_view =
  error :: "string option"
  loading :: bool
  papers :: "jsval list"
  lastFetchTime :: "int option"
  connectionStatus :: string

definition initial_view :: star_view where
  "initial_view =
     \<lparr>error = None, loading = True, papers = [], lastFetchTime = None,
      connectionStatus = ''Checking connection...''\<rparr>"

text \<open>
  \<^verbatim>\<open>shouldFetchNewData\<close>, with \<open>now\<close> the value of \<^verbatim>\<open>Date.now()\<close>. \<^verbatim>\<open>!lastFetchTime\<close>
  holds for \<^verbatim>\<open>null\<close> and for \<open>0\<close>. The quotient of two integral milliseconds is
  taken over the rationals.
\<close>

definition shouldFetchNewData :: "star_view \<Rightarrow> int \<Rightarrow> bool" where
  "shouldFetchNewData v now =
     (case lastFetchTime v of
        None \<Rightarrow> True
      | Some t \<Rightarrow>
          if t = 0 then True
          else (let hoursSinceLastFetch = (of_int (now - t) :: rat) / (1000 * 60 * 60)
                in hoursSinceLastFetch \<ge> 24))"

text \<open>\<^verbatim>\<open>neo4jData.map(paper => paper.name).filter(name => name && typeof name === 'string')\<close>\<close>

definition paper_names :: "jsobj list \<Rightarrow> jsval list" where
  "paper_names neo4jData =
     filter (\<lambda>name. truthy name \<and> typeof_string name) (map (\<lambda>paper. obj_get paper ''name'') neo4jData)"

text \<open>
  One run of \<^verbatim>\<open>fetchData\<close>: \<open>now\<close> is the clock read by \<^verbatim>\<open>shouldFetchNewData\<close>,
  \<open>now'\<close> the one stored by \<^verbatim>\<open>setLastFetchTime\<close>. The state setters are applied in
  the order they are called.
\<close>

definition fetchData ::
  "neo4jConfig \<Rightarrow> 'w driver \<Rightarrow> int \<Rightarrow> int \<Rightarrow> star_view \<times> 'w st \<Rightarrow> star_view \<times> 'w st" where
  "fetchData conf d now now' vs =
     (let v = fst vs; s = snd vs in
      if \<not> shouldFetchNewData v now then (v\<lparr>loading := False\<rparr>, s)
      else
        (let v1 = v\<lparr>connectionStatus := ''Connecting to Neo4j...''\<rparr> in
         case verifyConnection conf d s of
           (Inl err, s1) \<Rightarrow> (v1\<lparr>error := Some (err_message err), loading := False\<rparr>, s1)
         | (Inr isConnected, s1) \<Rightarrow>
             if \<not> isConnected then
               (v1\<lparr>error := Some ''Failed to connect to Neo4j database'', loading := False\<rparr>, s1)
             else
               (let v2 = v1\<lparr>connectionStatus := ''Connected to Neo4j. Loading papers...''\<rparr> in
                case getAllPapers conf d s1 of
                  (Inl err, s2) \<Rightarrow> (v2\<lparr>error := Some (err_message err), loading := False\<rparr>, s2)
                | (Inr neo4jData, s2) \<Rightarrow>
                    (let names = paper_names neo4jData;
                         v3 = v2\<lparr>papers := names, lastFetchTime := Some now', loading := False\<rparr>
                     in (if length names = 0
                         then v3\<lparr>error := Some ''No papers found in the database''\<rparr>
                         else v3, s2)))))"

text \<open>
  \<^verbatim>\<open>StarScene\<close> maps the list of names to \<^verbatim>\<open>PaperNode\<close> elements, one per entry, each
  with the name and its index (the random position of a node is left out).
\<close>

record paper_node =
  node_name :: jsval
  node_index :: nat

definition StarScene :: "jsval list \<Rightarrow> paper_node list" where
  "StarScene ps = map (\<lambda>(index, name). \<lparr>node_name = name, node_index = index\<rparr>) (enumerate 0 ps)"

text \<open>What \<^verbatim>\<open>StarView\<close> returns: the loading screen, the error screen or the scene.\<close>

datatype rendered =
    LoadingScreen string
  | ErrorScreen string
  | StarField "paper_node list"

definition StarView_render :: "star_view \<Rightarrow> rendered" where
  "StarView_render v =
     (if loading v then LoadingScreen (connectionStatus v)
      else (case error v of
              None \<Rightarrow> StarField (StarScene (papers v))
            | Some m \<Rightarrow> if m \<noteq> [] then ErrorScreen m else StarField (StarScene (papers v))))"

section \<open>The fallback data: \<^verbatim>\<open>tempPapers.js\<close>\<close>

text \<open>Names outside ASCII are written as their UTF-8 bytes.\<close>

record paper =
  paper_id :: string
  paper_name :: string
  paper_labels :: "jsval list"

definition tempPapers :: "paper list" where
  "tempPapers = [
    \<lparr>paper_id = ''915'',
     paper_name = [CHR 0xE5, CHR 0x9B, CHR 0xBD, CHR 0xE9, CHR 0x99, CHR 0x85, CHR 0xE5, CHR 0xAD, CHR 0xA6, CHR 0xE7, CHR 0x94, CHR 0x9F, CHR 0xE6, CHR 0xB4, CHR 0xBB, CHR 0xE5, CHR 0x8A, CHR 0xA8] @ '' (UIC International Student Activities)'',
     paper_labels = [JStr ''Paper'', JStr ''Activity'']\<rparr>,
    \<lparr>paper_id = ''916'',
     paper_name = ''The Nexus (SHSID)'',
     paper_labels = [JStr ''Paper'', JStr ''Club'']\<rparr>,
    \<lparr>paper_id = ''917'',
     paper_name = [CHR 0xE5, CHR 0xAD, CHR 0xA6, CHR 0xE7, CHR 0x94, CHR 0x9F, CHR 0xE4, CHR 0xBC, CHR 0x9A] @ '' (Student Council - SCIS)'',
     paper_labels = [JStr ''Paper'', JStr ''Organization'']\<rparr>,
    \<lparr>paper_id = ''918'',
     paper_name = [CHR 0xE8, CHR 0x8C, CHR 0xB1, CHR 0xE8, CHR 0x8E, CHR 0x89, CHR 0xE4, CHR 0xBA, CHR 0x9A, CHR 0xE5, CHR 0xAD, CHR 0xA6, CHR 0xE9, CHR 0x99, CHR 0xA2, CHR 0xE5, CHR 0x90, CHR 0x88, CHR 0xE4, CHR 0xBD, CHR 0x9C, CHR 0xE9, CHR 0xA1, CHR 0xB9, CHR 0xE7, CHR 0x9B, CHR 0xAE] @ '' (Juilliard Collaboration Projects)'',
     paper_labels = [JStr ''Paper'', JStr ''Project'']\<rparr>,
    \<lparr>paper_id = ''919'',
     paper_name = ''Live 2 Drama (SHSID)'',
     paper_labels = [JStr ''Paper'', JStr ''Club'']\<rparr>,
    \<lparr>paper_id = ''920'',
     paper_name = ''MIT'' @ [CHR 0xE5, CHR 0x90, CHR 0x88, CHR 0xE4, CHR 0xBD, CHR 0x9C] @ ''STEAM'' @ [CHR 0xE9, CHR 0xA1, CHR 0xB9, CHR 0xE7, CHR 0x9B, CHR 0xAE] @ '' (MIT Collaboration STEAM Projects)'',
     paper_labels = [JStr ''Paper'', JStr ''Project'']\<rparr>,
    \<lparr>paper_id = ''921'',
     paper_name = ''Phoenix Squadron Drone Club (Concordia Shanghai)'',
     paper_labels = [JStr ''Paper'', JStr ''Club'']\<rparr>,
    \<lparr>paper_id = ''922'',
     paper_name = ''World Scholar'' @ [CHR 0x27] @ ''s Cup (SHSID)'',
     paper_labels = [JStr ''Paper'', JStr ''Competition'']\<rparr>,
    \<lparr>paper_id = ''923'',
     paper_name = ''ASDAN'' @ [CHR 0xE5, CHR 0x9B, CHR 0xBD, CHR 0xE9, CHR 0x99, CHR 0x85] @ ''STEM'' @ [CHR 0xE6, CHR 0x8C, CHR 0x91, CHR 0xE6, CHR 0x88, CHR 0x98, CHR 0xE8, CHR 0xB5, CHR 0x9B] @ '' (ASDAN International STEM Challenges)'',
     paper_labels = [JStr ''Paper'', JStr ''Competition'']\<rparr>,
    \<lparr>paper_id = ''924'',
     paper_name = ''Social Responsibility'',
     paper_labels = [JStr ''Paper'', JStr ''Concept'']\<rparr>,
    \<lparr>paper_id = ''925'',
     paper_name = ''Innovation'',
     paper_labels = [JStr ''Paper'', JStr ''Concept'']\<rparr>]"

definition labels_pool :: "jsval list" where
  "labels_pool =
     [JStr ''Paper'', JStr ''Activity'', JStr ''Club'', JStr ''Organization'', JStr ''Project'',
      JStr ''Competition'', JStr ''Concept'']"

definition activities :: "jsval list" where
  "activities =
     [JStr ''Science Fair'', JStr ''Math Competition'', JStr ''Debate Club'', JStr ''Art Exhibition'',
      JStr ''Music Festival'', JStr ''Sports Tournament'', JStr ''Cultural Exchange'',
      JStr ''Research Project'', JStr ''Community Service'', JStr ''Environmental Initiative'']"

definition schools :: "jsval list" where
  "schools = [JStr ''SHSID'', JStr ''SCIS'', JStr ''Concordia'', JStr ''UIC'']"

text \<open>\<^verbatim>\<open>array[i]\<close>: \<^verbatim>\<open>undefined\<close> outside the array.\<close>

definition array_get :: "jsval list \<Rightarrow> int \<Rightarrow> jsval" where
  "array_get xs i = (if 0 \<le> i \<and> i < int (length xs) then xs ! nat i else JUndefined)"

text \<open>A string (or \<^verbatim>\<open>undefined\<close>) inside a template literal.\<close>

fun template_string :: "jsval \<Rightarrow> string" where
  "template_string (JStr s) = s"
| "template_string v = ''undefined''"

text \<open>
  \<^verbatim>\<open>Math.random()\<close> is a parameter: \<open>rnd k\<close> is what its \<open>k\<close>-th call returns, a
  number that the language places in \<open>[0, 1)\<close>. The loops thread the number of calls
  made so far. Products are taken over the rationals; the rounding of the floating-point
  product never reaches the next integer for the factors 3, 4, 6 and 10 used here.
\<close>

type_synonym random_source = "nat \<Rightarrow> rat"

definition in_unit_interval :: "random_source \<Rightarrow> bool" where
  "in_unit_interval rnd = (\<forall>k. 0 \<le> rnd k \<and> rnd k < 1)"

text \<open>The inner loop \<^verbatim>\<open>for (let j = 0; j < numLabels; j++)\<close>.\<close>

function label_loop :: "random_source \<Rightarrow> nat \<Rightarrow> int \<Rightarrow> int \<Rightarrow> jsval list \<Rightarrow> jsval list \<times> nat" where
  "label_loop rnd k j numLabels paperLabels =
     (if j < numLabels then
        (let randomLabel = array_get labels_pool (\<lfloor>rnd k * of_nat (length labels_pool - 1)\<rfloor> + 1);
             paperLabels' = (if randomLabel \<in> set paperLabels then paperLabels
                             else paperLabels @ [randomLabel])
         in label_loop rnd (k + 1) (j + 1) numLabels paperLabels')
      else (paperLabels, k))"
  by pat_completeness auto
termination
  by (relation "measure (\<lambda>(rnd, k, j, numLabels, paperLabels). nat (numLabels - j))") auto

text \<open>The body of the outer loop: the paper with number \<open>i\<close>.\<close>

definition generate_paper :: "random_source \<Rightarrow> nat \<Rightarrow> int \<Rightarrow> paper \<times> nat" where
  "generate_paper rnd k i =
     (let numLabels = \<lfloor>rnd k * 3\<rfloor> + 1 in
      case label_loop rnd (k + 1) 0 numLabels [JStr ''Paper''] of
        (paperLabels, k1) \<Rightarrow>
          (let activity = array_get activities \<lfloor>rnd k1 * of_nat (length activities)\<rfloor>;
               school = array_get schools \<lfloor>rnd (k1 + 1) * 4\<rfloor>;
               name = template_string activity @ '' ('' @ template_string school @ '')''
           in (\<lparr>paper_id = toString i, paper_name = name, paper_labels = paperLabels\<rparr>, k1 + 2)))"

text \<open>\<^verbatim>\<open>for (let i = 926; i <= 2000; i++)\<close>\<close>

function generate_loop :: "random_source \<Rightarrow> nat \<Rightarrow> int \<Rightarrow> paper list \<Rightarrow> paper list" where
  "generate_loop rnd k i ps =
     (if i \<le> 2000 then
        (case generate_paper rnd k i of (p, k') \<Rightarrow> generate_loop rnd k' (i + 1) (ps @ [p]))
      else ps)"
  by pat_completeness auto
termination
  by (relation "measure (\<lambda>(rnd, k, i, ps). nat (2001 - i))") auto

definition generateMorePapers :: "random_source \<Rightarrow> paper list" where
  "generateMorePapers rnd = generate_loop rnd 0 926 tempPapers"

definition allPapers :: "random_source \<Rightarrow> paper list" where
  "allPapers rnd = generateMorePapers rnd"

text \<open>
  The labels of a generated paper: no duplicate, \<^verbatim>\<open>"Paper"\<close> first, two to four labels.
\<close>

definition well_formed_labels :: "paper \<Rightarrow> bool" where
  "well_formed_labels p \<longleftrightarrow>
     distinct (paper_labels p) \<and> hd (paper_labels p) = JStr ''Paper''
     \<and> 2 \<le> length (paper_labels p) \<and> length (paper_labels p) \<le> 4"

section \<open>Reading a trace\<close>

text \<open>The four operations of the data-access layer, and one call of any of them.\<close>

datatype service_call =
    VerifyConnection
  | GetAllPapers
  | GetPaperDetails jsval
  | GetRelatedPapers jsval

text \<open>Whether the call threw, and the state it left.\<close>

definition perform :: "neo4jConfig \<Rightarrow> 'w driver \<Rightarrow> service_call \<Rightarrow> 'w st \<Rightarrow> bool \<times> 'w st" where
  "perform conf d c s =
     (case c of
        VerifyConnection \<Rightarrow> (case verifyConnection conf d s of (r, s') \<Rightarrow> (isl r, s'))
      | GetAllPapers \<Rightarrow> (case getAllPapers conf d s of (r, s') \<Rightarrow> (isl r, s'))
      | GetPaperDetails paperId \<Rightarrow> (case getPaperDetails conf d paperId s of (r, s') \<Rightarrow> (isl r, s'))
      | GetRelatedPapers paperId \<Rightarrow> (case getRelatedPapers conf d paperId s of (r, s') \<Rightarrow> (isl r, s')))"

definition threw :: "neo4jConfig \<Rightarrow> 'w driver \<Rightarrow> service_call \<Rightarrow> 'w \<Rightarrow> bool" where
  "threw conf d c w = fst (perform conf d c (w, []))"

definition trace_of :: "neo4jConfig \<Rightarrow> 'w driver \<Rightarrow> service_call \<Rightarrow> 'w \<Rightarrow> event list" where
  "trace_of conf d c w = snd (snd (perform conf d c (w, [])))"

definition world_after :: "neo4jConfig \<Rightarrow> 'w driver \<Rightarrow> service_call \<Rightarrow> 'w \<Rightarrow> 'w" where
  "world_after conf d c w = fst (snd (perform conf d c (w, [])))"

text \<open>The queries of a trace (text and bound parameters), in the order they were run.\<close>

fun run_calls :: "event list \<Rightarrow> (string \<times> query_params) list" where
  "run_calls [] = []"
| "run_calls (Run cfg q ps ok # es) = (q, ps) # run_calls es"
| "run_calls (e # es) = run_calls es"

definition run_queries :: "event list \<Rightarrow> string list" where
  "run_queries es = map fst (run_calls es)"

fun failed_runs :: "event list \<Rightarrow> string list" where
  "failed_runs [] = []"
| "failed_runs (Run cfg q ps ok # es) = (if ok then failed_runs es else q # failed_runs es)"
| "failed_runs (e # es) = failed_runs es"

text \<open>The queries run after the first query that failed.\<close>

fun run_after_failure :: "event list \<Rightarrow> string list" where
  "run_after_failure [] = []"
| "run_after_failure (Run cfg q ps ok # es) = (if ok then run_after_failure es else run_queries es)"
| "run_after_failure (e # es) = run_after_failure es"

text \<open>The sessions asked for, opened and closed, and the sessions the queries ran in.\<close>

fun sessions_requested :: "event list \<Rightarrow> session_config list" where
  "sessions_requested [] = []"
| "sessions_requested (SessionOpened cfg # es) = cfg # sessions_requested es"
| "sessions_requested (SessionFailed cfg # es) = cfg # sessions_requested es"
| "sessions_requested (e # es) = sessions_requested es"

fun sessions_opened :: "event list \<Rightarrow> session_config list" where
  "sessions_opened [] = []"
| "sessions_opened (SessionOpened cfg # es) = cfg # sessions_opened es"
| "sessions_opened (e # es) = sessions_opened es"

fun sessions_closed :: "event list \<Rightarrow> session_config list" where
  "sessions_closed [] = []"
| "sessions_closed (SessionClosed cfg # es) = cfg # sessions_closed es"
| "sessions_closed (e # es) = sessions_closed es"

fun run_sessions :: "event list \<Rightarrow> session_config list" where
  "run_sessions [] = []"
| "run_sessions (Run cfg q ps ok # es) = cfg # run_sessions es"
| "run_sessions (e # es) = run_sessions es"

text \<open>The six query texts of the service.\<close>

definition service_queries :: "string list" where
  "service_queries =
     [return_1_query, components_query, labels_query, all_nodes_query, paper_details_query,
      related_papers_query]"

text \<open>
  A driver leaves the database alone when it runs one of these queries in a \<open>READ\<close>
  session, and when it opens or closes a session or checks connectivity; \<open>db\<close> reads the
  database out of the state of the world.
\<close>

definition reads_only :: "('w \<Rightarrow> 'g) \<Rightarrow> 'w driver \<Rightarrow> bool" where
  "reads_only db d \<longleftrightarrow>
     (\<forall>cfg w. db (snd (drv_session d cfg w)) = db w) \<and>
     (\<forall>cfg q ps w. defaultAccessMode cfg = READ \<longrightarrow> q \<in> set service_queries \<longrightarrow>
        db (snd (drv_run d cfg q ps w)) = db w) \<and>
     (\<forall>w. db (snd (drv_verifyConnectivity d w)) = db w) \<and>
     (\<forall>cfg w. db (drv_session_close d cfg w) = db w)"

text \<open>The driver calls of a trace that threw or rejected.\<close>

fun failed_event :: "event \<Rightarrow> bool" where
  "failed_event (SessionFailed cfg) = True"
| "failed_event (Run cfg q ps ok) = (\<not> ok)"
| "failed_event (VerifyConnectivity ok) = (\<not> ok)"
| "failed_event e = False"

text \<open>
  The object built from a node by \<^verbatim>\<open>{ id: node.identity.toString(), ...node.properties }\<close>,
  read field by field: a property of the node, else the identity under \<^verbatim>\<open>id\<close>.
\<close>

definition node_field :: "int \<Rightarrow> jsobj \<Rightarrow> string \<Rightarrow> jsval" where
  "node_field i props key =
     (case map_of props key of
        Some v \<Rightarrow> v
      | None \<Rightarrow> if key = ''id'' then JStr (toString i) else JUndefined)"

text \<open>A record with a name to show: \<^verbatim>\<open>name && typeof name === 'string'\<close>.\<close>

definition has_name :: "jsobj \<Rightarrow> bool" where
  "has_name p = (truthy (obj_get p ''name'') \<and> typeof_string (obj_get p ''name''))"

text \<open>
  A driver honours \<^verbatim>\<open>LIMIT 10\<close> when every query whose text ends in \<^verbatim>\<open>LIMIT 10\<close>
  returns at most 10 records (what the clause means to the database).
\<close>

definition honours_limit_10 :: "'w driver \<Rightarrow> bool" where
  "honours_limit_10 d \<longleftrightarrow>
     (\<forall>cfg q ps w records w'.
        (\<exists>text. q = text @ ''LIMIT 10'') \<longrightarrow> drv_run d cfg q ps w = (Inr records, w') \<longrightarrow>
        length records \<le> 10)"

section \<open>Example environments\<close>

text \<open>
  A small database and a driver over it, to run the operations on: nodes, undirected
  relationships between identities, and a count of the queries served.
\<close>

record graph =
  g_nodes :: "jsval list"
  g_edges :: "(int \<times> int) list"
  g_served :: nat

fun has_identity :: "int \<Rightarrow> jsval \<Rightarrow> bool" where
  "has_identity i (JNode j props) = (i = j)"
| "has_identity i v = False"

definition neighbours :: "graph \<Rightarrow> int \<Rightarrow> jsval list" where
  "neighbours g i =
     concat (map (\<lambda>(a, b). (if a = i then filter (has_identity b) (g_nodes g) else [])
                          @ (if b = i then filter (has_identity a) (g_nodes g) else []))
                 (g_edges g))"

definition example_run :: "session_config \<Rightarrow> string \<Rightarrow> query_params \<Rightarrow> graph \<Rightarrow> (js_error + neo_record list) \<times> graph" where
  "example_run cfg q ps g =
     (let g' = g\<lparr>g_served := g_served g + 1\<rparr> in
      if q = return_1_query then (Inr [[(''n'', JNum 1)]], g')
      else if q = components_query then
        (Inr [[(''name'', JStr ''Neo4j Kernel''), (''versions'', JArr [JStr ''5.0.0'']),
               (''edition'', JStr ''community'')]], g')
      else if q = labels_query then (Inr [[(''labels'', JArr [JStr ''Paper''])]], g')
      else if q = all_nodes_query then
        (Inr (map (\<lambda>n. [(''n'', n), (''labels'', JArr [JStr ''Paper''])]) (g_nodes g)), g')
      else if q = paper_details_query then
        (case map_of ps ''paperId'' of
           None \<Rightarrow> (Inl \<lparr>err_code = Some ''Neo.ClientError.Statement.ParameterMissing'',
                         err_message = ''Expected parameter(s): paperId''\<rparr>, g')
         | Some i \<Rightarrow> (Inr (map (\<lambda>n. [(''n'', n)]) (filter (has_identity i) (g_nodes g))), g'))
      else if q = related_papers_query then
        (case map_of ps ''paperId'' of
           None \<Rightarrow> (Inl \<lparr>err_code = Some ''Neo.ClientError.Statement.ParameterMissing'',
                         err_message = ''Expected parameter(s): paperId''\<rparr>, g')
         | Some i \<Rightarrow> (Inr (map (\<lambda>n. [(''related'', n)]) (take 10 (neighbours g i))), g'))
      else (Inl \<lparr>err_code = Some ''Neo.ClientError.Statement.SyntaxError'',
                 err_message = ''Invalid input''\<rparr>, g'))"

fun example_int :: "jsval \<Rightarrow> js_error + int" where
  "example_int (JNum n) = Inr n"
| "example_int v = Inl (Error ''number format error'')"

definition example_driver :: "graph driver" where
  "example_driver =
     \<lparr>drv_session = (\<lambda>cfg g. (Inr (), g)),
      drv_run = example_run,
      drv_verifyConnectivity = (\<lambda>g. (Inr (), g)),
      drv_session_close = (\<lambda>cfg g. g),
      neo4j_int = example_int\<rparr>"

definition example_graph :: graph where
  "example_graph =
     \<lparr>g_nodes = [JNode 915 [(''name'', JStr ''The Nexus (SHSID)'')],
                 JNode 916 [(''title'', JStr ''untitled'')],
                 JNode 917 [(''id'', JStr ''paper-917''), (''name'', JStr ''Innovation'')]],
      g_edges = [(915, 916), (917, 915)],
      g_served = 0\<rparr>"

definition example_config :: neo4jConfig where
  "example_config =
     \<lparr>uri = ''bolt://localhost:7687'', user = ''neo4j'', password = ''secret'',
      config_database = ''neo4j''\<rparr>"

text \<open>A driver whose \<^verbatim>\<open>session()\<close> throws, and one whose every query fails.\<close>

definition no_session_driver :: "graph driver" where
  "no_session_driver =
     example_driver\<lparr>drv_session :=
       (\<lambda>cfg g. (Inl \<lparr>err_code = Some ''ServiceUnavailable'', err_message = ''Driver is closed''\<rparr>, g))\<rparr>"

definition no_query_driver :: "graph driver" where
  "no_query_driver =
     example_driver\<lparr>drv_run :=
       (\<lambda>cfg q ps g. (Inl \<lparr>err_code = Some ''SessionExpired'', err_message = ''Connection lost''\<rparr>, g))\<rparr>"

section \<open>The fetch decision of the view\<close>

lemmas service_defs =
  perform_def trace_of_def threw_def world_after_def
  verifyConnection_def verifyConnection_try_def getAllPapers_def getAllPapers_try_def
  getPaperDetails_def getPaperDetails_try_def getRelatedPapers_def getRelatedPapers_try_def
  getSession_def session_run_def session_close_def verifyConnectivity_def

lemma hours_ge_24: "(24 \<le> (of_int x :: rat) / (1000 * 60 * 60)) = (86400000 \<le> x)"
proof -
  have "(24 \<le> (of_int x :: rat) / (1000 * 60 * 60)) = ((of_int 86400000 :: rat) \<le> of_int x)"
    by (simp add: le_divide_eq)
  also have "\<dots> = (86400000 \<le> x)"
    by (simp only: of_int_le_iff)
  finally show ?thesis .
qed

lemma shouldFetchNewData_iff:
  "shouldFetchNewData v now \<longleftrightarrow>
     (case lastFetchTime v of None \<Rightarrow> True | Some t \<Rightarrow> t = 0 \<or> 86400000 \<le> now - t)"
  unfolding shouldFetchNewData_def Let_def hours_ge_24
  by (auto split: option.splits)

text \<open>
  Claim C1, as the code has it. \<^verbatim>\<open>shouldFetchNewData\<close> returns true exactly when no
  last-fetch time is stored (\<^verbatim>\<open>null\<close> or \<open>0\<close>) or at least 24 hours (86,400,000 ms) have
  passed since it. When it returns false, \<^verbatim>\<open>fetchData\<close> skips the fetch: it makes no
  driver call and only clears the loading flag. When it returns true, \<^verbatim>\<open>fetchData\<close> asks
  the driver for a session and, once the session is open, queries the database, starting
  with \<^verbatim>\<open>RETURN 1 as n\<close>; a fetch in which \<^verbatim>\<open>verifyConnection\<close> and \<^verbatim>\<open>getAllPapers\<close>
  both return has run the four queries of the two operations, and stores the names it read
  and the time.
\<close>

theorem C1_fetch_unless_fresh:
  "(shouldFetchNewData v now \<longleftrightarrow>
      lastFetchTime v = None \<or> lastFetchTime v = Some 0
      \<or> (\<exists>t. lastFetchTime v = Some t \<and> 86400000 \<le> now - t))
   \<and> (\<not> shouldFetchNewData v now \<longrightarrow>
        fetchData conf d now now' (v, s) = (v\<lparr>loading := False\<rparr>, s))
   \<and> (shouldFetchNewData v now \<longrightarrow>
        sessions_requested (snd (snd (fetchData conf d now now' (v, (w, [])))))  \<noteq> []
        \<and> (\<forall>u w0. drv_session d \<lparr>database = config_database conf, defaultAccessMode = READ\<rparr> w
                      = (Inr u, w0) \<longrightarrow>
              (\<exists>rest. run_queries (snd (snd (fetchData conf d now now' (v, (w, [])))))
                        = return_1_query # rest))
        \<and> (\<forall>b s1 neo4jData s2.
              verifyConnection conf d (w, []) = (Inr b, s1)
              \<and> getAllPapers conf d s1 = (Inr neo4jData, s2) \<longrightarrow>
              run_queries (snd (snd (fetchData conf d now now' (v, (w, [])))))
                = [return_1_query, components_query, labels_query, all_nodes_query]
              \<and> papers (fst (fetchData conf d now now' (v, (w, [])))) = paper_names neo4jData
              \<and> lastFetchTime (fst (fetchData conf d now now' (v, (w, [])))) = Some now'))"
proof (intro conjI impI allI)
  show "shouldFetchNewData v now \<longleftrightarrow>
      lastFetchTime v = None \<or> lastFetchTime v = Some 0
      \<or> (\<exists>t. lastFetchTime v = Some t \<and> 86400000 \<le> now - t)"
    by (auto simp: shouldFetchNewData_iff split: option.splits)
next
  assume "\<not> shouldFetchNewData v now"
  then show "fetchData conf d now now' (v, s) = (v\<lparr>loading := False\<rparr>, s)"
    by (simp add: fetchData_def)
next
  assume "shouldFetchNewData v now"
  then show "sessions_requested (snd (snd (fetchData conf d now now' (v, (w, []))))) \<noteq> []"
    by (auto simp: fetchData_def service_defs Let_def split: prod.splits sum.splits)
next
  fix u w0
  assume "shouldFetchNewData v now"
    and "drv_session d \<lparr>database = config_database conf, defaultAccessMode = READ\<rparr> w = (Inr u, w0)"
  then show "\<exists>rest. run_queries (snd (snd (fetchData conf d now now' (v, (w, [])))))
                        = return_1_query # rest"
    by (auto simp: fetchData_def service_defs run_queries_def Let_def split: prod.splits sum.splits)
next
  fix b s1 neo4jData s2
  assume f: "shouldFetchNewData v now"
    and h: "verifyConnection conf d (w, []) = (Inr b, s1) \<and> getAllPapers conf d s1 = (Inr neo4jData, s2)"
  have b: "b" and q1: "run_queries (snd s1) = [return_1_query, components_query]"
    using h by (auto simp: service_defs run_queries_def Let_def split: prod.splits sum.splits)
  have r: "fetchData conf d now now' (v, (w, [])) =
      (let names = paper_names neo4jData;
           v3 = v\<lparr>connectionStatus := ''Connected to Neo4j. Loading papers...'',
                  papers := names, lastFetchTime := Some now', loading := False\<rparr>
       in (if length names = 0 then v3\<lparr>error := Some ''No papers found in the database''\<rparr> else v3, s2))"
    using f h b by (simp add: fetchData_def Let_def)
  show "papers (fst (fetchData conf d now now' (v, (w, [])))) = paper_names neo4jData"
    and "lastFetchTime (fst (fetchData conf d now now' (v, (w, [])))) = Some now'"
    by (simp_all add: r Let_def)
  have "run_queries (snd s2) = [return_1_query, components_query, labels_query, all_nodes_query]"
    using h by (auto simp: service_defs run_queries_def Let_def split: prod.splits sum.splits)
  then show "run_queries (snd (snd (fetchData conf d now now' (v, (w, [])))))
                = [return_1_query, components_query, labels_query, all_nodes_query]"
    by (simp add: r Let_def)
qed

theorem C1_fetch_unless_fresh_witness:
  "\<not> shouldFetchNewData (initial_view\<lparr>lastFetchTime := Some 1700000000000\<rparr>) 1700000001000
   \<and> fetchData example_config example_driver 1700000001000 1700000001500
        (initial_view\<lparr>lastFetchTime := Some 1700000000000\<rparr>, (example_graph, []))
     = (initial_view\<lparr>lastFetchTime := Some 1700000000000, loading := False\<rparr>, (example_graph, []))
   \<and> shouldFetchNewData initial_view 1700000001000
   \<and> run_queries (snd (snd (fetchData example_config example_driver 1700000001000 1700000001500
        (initial_view, (example_graph, [])))))
     = [return_1_query, components_query, labels_query, all_nodes_query]
   \<and> lastFetchTime (fst (fetchData example_config example_driver 1700000001000 1700000001500
        (initial_view, (example_graph, [])))) = Some 1700000001500"
proof -
  let ?s1 = "snd (verifyConnection example_config example_driver (example_graph, []))"
  let ?data = "[[(''id'', JStr ''915''), (''name'', JStr ''The Nexus (SHSID)''), (''labels'', JArr [JStr ''Paper''])],
            [(''id'', JStr ''916''), (''title'', JStr ''untitled''), (''labels'', JArr [JStr ''Paper''])],
            [(''id'', JStr ''paper-917''), (''name'', JStr ''Innovation''), (''labels'', JArr [JStr ''Paper''])]]"
  let ?s2 = "snd (getAllPapers example_config example_driver ?s1)"
  have fresh: "\<not> shouldFetchNewData (initial_view\<lparr>lastFetchTime := Some 1700000000000\<rparr>) 1700000001000"
    by (simp add: shouldFetchNewData_def initial_view_def)
  have stale: "shouldFetchNewData initial_view 1700000001000"
    by (simp add: shouldFetchNewData_def initial_view_def)
  have a2: "verifyConnection example_config example_driver (example_graph, []) = (Inr True, ?s1)"
    by code_simp
  have a3: "getAllPapers example_config example_driver ?s1 = (Inr ?data, ?s2)"
    by code_simp
  have skipped: "fetchData example_config example_driver 1700000001000 1700000001500
        (initial_view\<lparr>lastFetchTime := Some 1700000000000\<rparr>, (example_graph, []))
     = (initial_view\<lparr>lastFetchTime := Some 1700000000000\<rparr>\<lparr>loading := False\<rparr>, (example_graph, []))"
    by (rule C1_fetch_unless_fresh
          [of "initial_view\<lparr>lastFetchTime := Some 1700000000000\<rparr>" 1700000001000
            example_config example_driver 1700000001500 "(example_graph, [])" example_graph,
           THEN conjunct2, THEN conjunct1, rule_format, OF fresh])
  note fetched = C1_fetch_unless_fresh
          [of initial_view 1700000001000 example_config example_driver 1700000001500
            "(example_graph, [])" example_graph,
           THEN conjunct2, THEN conjunct2, rule_format, OF stale,
           THEN conjunct2, THEN conjunct2, rule_format, OF conjI [OF a2 a3]]
  show ?thesis
    using fresh stale skipped fetched by simp
qed

text \<open>
  Claim C1 as the specification words it fails: the run of \<^verbatim>\<open>fetchData\<close> that follows a
  successful fetch (the effect runs again when \<^verbatim>\<open>lastFetchTime\<close> changes) finds
  \<^verbatim>\<open>shouldFetchNewData\<close> false and leaves the driver untouched.
\<close>

theorem C1_counterexample:
  "\<not> shouldFetchNewData
        (fst (fetchData example_config example_driver 1700000000000 1700000000500
               (initial_view, (example_graph, []))))
        1700000001000
   \<and> snd (fetchData example_config example_driver 1700000001000 1700000001500
            (fetchData example_config example_driver 1700000000000 1700000000500
               (initial_view, (example_graph, []))))
     = snd (fetchData example_config example_driver 1700000000000 1700000000500
               (initial_view, (example_graph, [])))"
  by code_simp

section \<open>The data-access layer and the driver\<close>

lemma query_texts_differ:
  "return_1_query \<noteq> components_query" "labels_query \<noteq> all_nodes_query"
  by (simp_all add: return_1_query_def components_query_def labels_query_def all_nodes_query_def)

lemma paper_queries_constant:
  "set (run_queries (trace_of conf d (GetPaperDetails paperId) w)) \<subseteq> {paper_details_query}"
  "set (run_queries (trace_of conf d (GetRelatedPapers paperId) w)) \<subseteq> {related_papers_query}"
  by (auto simp: service_defs run_queries_def Let_def split: prod.splits sum.splits if_splits)

text \<open>
  Claim C2. Whatever the \<^verbatim>\<open>paperId\<close>, the driver and the state of the world,
  \<^verbatim>\<open>getPaperDetails\<close> and \<^verbatim>\<open>getRelatedPapers\<close> run at most one query each, its text is
  the constant of the operation, and the input reaches the driver only as the bound
  parameter \<^verbatim>\<open>paperId\<close> (no query is run when the session cannot be created or
  \<^verbatim>\<open>neo4j.int\<close> rejects the input). Hence any two calls of the same operation, on
  any two inputs, run the same query text.
\<close>

theorem C2_queries_parameterized:
  "run_calls (trace_of conf d (GetPaperDetails paperId) w) =
     (case fst (drv_session d \<lparr>database = config_database conf, defaultAccessMode = READ\<rparr> w) of
        Inl e \<Rightarrow> []
      | Inr u \<Rightarrow> (case neo4j_int d paperId of
                    Inl e \<Rightarrow> []
                  | Inr pid \<Rightarrow> [(paper_details_query, [(''paperId'', pid)])]))
   \<and> run_calls (trace_of conf d (GetRelatedPapers paperId) w) =
     (case fst (drv_session d \<lparr>database = config_database conf, defaultAccessMode = READ\<rparr> w) of
        Inl e \<Rightarrow> []
      | Inr u \<Rightarrow> (case neo4j_int d paperId of
                    Inl e \<Rightarrow> []
                  | Inr pid \<Rightarrow> [(related_papers_query, [(''paperId'', pid)])]))
   \<and> (\<forall>q \<in> set (run_queries (trace_of conf d (GetPaperDetails paperId) w)).
        \<forall>q' \<in> set (run_queries (trace_of conf' d' (GetPaperDetails paperId') w')).
          q = q' \<and> q = paper_details_query)
   \<and> (\<forall>q \<in> set (run_queries (trace_of conf d (GetRelatedPapers paperId) w)).
        \<forall>q' \<in> set (run_queries (trace_of conf' d' (GetRelatedPapers paperId') w')).
          q = q' \<and> q = related_papers_query)"
proof (intro conjI ballI)
  fix q q'
  assume "q \<in> set (run_queries (trace_of conf d (GetPaperDetails paperId) w))"
    and "q' \<in> set (run_queries (trace_of conf' d' (GetPaperDetails paperId') w'))"
  with paper_queries_constant(1) [of conf d paperId w] paper_queries_constant(1) [of conf' d' paperId' w']
  show "q = q'" "q = paper_details_query" by blast+
next
  fix q q'
  assume "q \<in> set (run_queries (trace_of conf d (GetRelatedPapers paperId) w))"
    and "q' \<in> set (run_queries (trace_of conf' d' (GetRelatedPapers paperId') w'))"
  with paper_queries_constant(2) [of conf d paperId w] paper_queries_constant(2) [of conf' d' paperId' w']
  show "q = q'" "q = related_papers_query" by blast+
qed (auto simp: service_defs Let_def split: prod.splits sum.splits if_splits)

theorem C2_queries_parameterized_witness:
  "run_calls (trace_of example_config example_driver (GetPaperDetails (JNum 917)) example_graph)
     = [(paper_details_query, [(''paperId'', 917)])]
   \<and> run_calls (trace_of example_config example_driver (GetRelatedPapers (JNum 915)) example_graph)
     = [(related_papers_query, [(''paperId'', 915)])]
   \<and> run_queries (trace_of example_config example_driver (GetPaperDetails (JNum 917)) example_graph)
     = run_queries (trace_of example_config example_driver (GetPaperDetails (JNum 9)) example_graph)"
proof -
  have a: "run_calls (trace_of example_config example_driver (GetPaperDetails (JNum 917)) example_graph)
     = [(paper_details_query, [(''paperId'', 917)])]"
    using C2_queries_parameterized [of example_config example_driver "JNum 917" example_graph
             example_config example_driver "JNum 9" example_graph]
    by (simp add: example_driver_def)
  have b: "run_calls (trace_of example_config example_driver (GetRelatedPapers (JNum 915)) example_graph)
     = [(related_papers_query, [(''paperId'', 915)])]"
    using C2_queries_parameterized [of example_config example_driver "JNum 915" example_graph
             example_config example_driver "JNum 9" example_graph]
    by (simp add: example_driver_def)
  have c: "run_calls (trace_of example_config example_driver (GetPaperDetails (JNum 9)) example_graph)
     = [(paper_details_query, [(''paperId'', 9)])]"
    using C2_queries_parameterized [of example_config example_driver "JNum 9" example_graph
             example_config example_driver "JNum 9" example_graph]
    by (simp add: example_driver_def)
  from a b c show ?thesis by (simp add: run_queries_def)
qed

text \<open>
  Claim C4. In every call of the four operations no query text is run twice, no query is
  run after a query has failed, at most one query fails, and a failed query makes the
  operation throw.
\<close>

theorem C4_no_retry:
  "distinct (run_queries (trace_of conf d c w))
   \<and> run_after_failure (trace_of conf d c w) = []
   \<and> length (failed_runs (trace_of conf d c w)) \<le> 1
   \<and> (failed_runs (trace_of conf d c w) \<noteq> [] \<longrightarrow> threw conf d c w)"
  by (cases c) (auto simp: service_defs run_queries_def query_texts_differ Let_def split: prod.splits sum.splits if_splits)

theorem C4_no_retry_witness:
  "failed_runs (trace_of example_config no_query_driver GetAllPapers example_graph) = [labels_query]
   \<and> run_queries (trace_of example_config no_query_driver GetAllPapers example_graph) = [labels_query]
   \<and> threw example_config no_query_driver GetAllPapers example_graph"
proof -
  have failed: "failed_runs (trace_of example_config no_query_driver GetAllPapers example_graph) = [labels_query]"
    by code_simp
  have run: "run_queries (trace_of example_config no_query_driver GetAllPapers example_graph) = [labels_query]"
    by code_simp
  show ?thesis
    using failed run C4_no_retry [of example_config no_query_driver GetAllPapers example_graph]
    by simp
qed

subsection \<open>The database is only read\<close>

lemma service_queries_mem:
  "return_1_query \<in> set service_queries" "components_query \<in> set service_queries"
  "labels_query \<in> set service_queries" "all_nodes_query \<in> set service_queries"
  "paper_details_query \<in> set service_queries" "related_papers_query \<in> set service_queries"
  by (simp_all add: service_queries_def)

lemma reads_only_session: "reads_only db d \<Longrightarrow> drv_session d cfg w = (r, w') \<Longrightarrow> db w' = db w"
  unfolding reads_only_def by (metis snd_conv)

lemma reads_only_run:
  "reads_only db d \<Longrightarrow> defaultAccessMode cfg = READ \<Longrightarrow> q \<in> set service_queries \<Longrightarrow>
   drv_run d cfg q ps w = (r, w') \<Longrightarrow> db w' = db w"
  unfolding reads_only_def by (metis snd_conv)

lemma reads_only_verify: "reads_only db d \<Longrightarrow> drv_verifyConnectivity d w = (r, w') \<Longrightarrow> db w' = db w"
  unfolding reads_only_def by (metis snd_conv)

lemma reads_only_close: "reads_only db d \<Longrightarrow> db (drv_session_close d cfg w) = db w"
  unfolding reads_only_def by blast

lemma getSession_db:
  "reads_only db d \<Longrightarrow> getSession conf d s = (r, s') \<Longrightarrow> db (fst s') = db (fst s)"
  by (auto simp: getSession_def Let_def split: prod.splits sum.splits dest: reads_only_session)

lemma getSession_READ:
  "getSession conf d s = (Inr cfg, s') \<Longrightarrow> defaultAccessMode cfg = READ"
  by (auto simp: getSession_def Let_def split: prod.splits sum.splits)

lemma session_run_db:
  "reads_only db d \<Longrightarrow> defaultAccessMode cfg = READ \<Longrightarrow> q \<in> set service_queries \<Longrightarrow>
   session_run d cfg q ps s = (r, s') \<Longrightarrow> db (fst s') = db (fst s)"
  by (auto simp: session_run_def split: prod.splits dest: reads_only_run)

lemma verifyConnectivity_db:
  "reads_only db d \<Longrightarrow> verifyConnectivity d s = (r, s') \<Longrightarrow> db (fst s') = db (fst s)"
  by (auto simp: verifyConnectivity_def split: prod.splits dest: reads_only_verify)

lemma session_close_db:
  "reads_only db d \<Longrightarrow> db (fst (session_close d cfg s)) = db (fst s)"
  by (simp add: session_close_def reads_only_close)

lemma verifyConnection_try_db:
  assumes "reads_only db d" "defaultAccessMode cfg = READ" "verifyConnection_try d cfg s = (r, s')"
  shows "db (fst s') = db (fst s)"
  using assms(3) unfolding verifyConnection_try_def
  by (auto split: prod.splits sum.splits
           dest!: session_run_db [OF assms(1,2) service_queries_mem(1)]
                  session_run_db [OF assms(1,2) service_queries_mem(2)]
                  verifyConnectivity_db [OF assms(1)])

lemma getAllPapers_try_db:
  assumes "reads_only db d" "defaultAccessMode cfg = READ" "getAllPapers_try d cfg s = (r, s')"
  shows "db (fst s') = db (fst s)"
  using assms(3) unfolding getAllPapers_try_def
  by (auto split: prod.splits sum.splits
           dest!: session_run_db [OF assms(1,2) service_queries_mem(3)]
                  session_run_db [OF assms(1,2) service_queries_mem(4)])

lemma getPaperDetails_try_db:
  assumes "reads_only db d" "defaultAccessMode cfg = READ" "getPaperDetails_try d cfg p s = (r, s')"
  shows "db (fst s') = db (fst s)"
  using assms(3) unfolding getPaperDetails_try_def
  by (auto split: prod.splits sum.splits if_splits
           dest!: session_run_db [OF assms(1,2) service_queries_mem(5)])

lemma getRelatedPapers_try_db:
  assumes "reads_only db d" "defaultAccessMode cfg = READ" "getRelatedPapers_try d cfg p s = (r, s')"
  shows "db (fst s') = db (fst s)"
  using assms(3) unfolding getRelatedPapers_try_def
  by (auto split: prod.splits sum.splits
           dest!: session_run_db [OF assms(1,2) service_queries_mem(6)])

lemma perform_db:
  assumes ro: "reads_only db d"
  shows "db (fst (snd (perform conf d c s))) = db (fst s)"
proof -
  obtain r s0 where Pair: "getSession conf d s = (r, s0)"
    by (cases "getSession conf d s")
  note gs = getSession_db [OF ro Pair]
  show ?thesis
  proof (cases r)
    case (Inl e)
    with Pair gs show ?thesis
      by (cases c) (simp_all add: perform_def verifyConnection_def getAllPapers_def
          getPaperDetails_def getRelatedPapers_def)
  next
    case (Inr cfg)
    have rd: "defaultAccessMode cfg = READ"
      using Pair Inr getSession_READ by blast
    show ?thesis
    proof (cases c)
      case VerifyConnection
      obtain r1 s1 where t: "verifyConnection_try d cfg s0 = (r1, s1)"
        by (cases "verifyConnection_try d cfg s0")
      from verifyConnection_try_db [OF ro rd t] gs Pair Inr t VerifyConnection show ?thesis
        by (cases r1) (simp_all add: perform_def verifyConnection_def session_close_db [OF ro])
    next
      case GetAllPapers
      obtain r1 s1 where t: "getAllPapers_try d cfg s0 = (r1, s1)"
        by (cases "getAllPapers_try d cfg s0")
      from getAllPapers_try_db [OF ro rd t] gs Pair Inr t GetAllPapers show ?thesis
        by (cases r1) (simp_all add: perform_def getAllPapers_def session_close_db [OF ro])
    next
      case (GetPaperDetails p)
      obtain r1 s1 where t: "getPaperDetails_try d cfg p s0 = (r1, s1)"
        by (cases "getPaperDetails_try d cfg p s0")
      from getPaperDetails_try_db [OF ro rd t] gs Pair Inr t GetPaperDetails show ?thesis
        by (cases r1) (simp_all add: perform_def getPaperDetails_def session_close_db [OF ro])
    next
      case (GetRelatedPapers p)
      obtain r1 s1 where t: "getRelatedPapers_try d cfg p s0 = (r1, s1)"
        by (cases "getRelatedPapers_try d cfg p s0")
      from getRelatedPapers_try_db [OF ro rd t] gs Pair Inr t GetRelatedPapers show ?thesis
        by (cases r1) (simp_all add: perform_def getRelatedPapers_def session_close_db [OF ro])
    qed
  qed
qed

lemma trace_sessions:
  "set (sessions_requested (trace_of conf d c w))
     \<subseteq> {\<lparr>database = config_database conf, defaultAccessMode = READ\<rparr>}"
  "set (run_sessions (trace_of conf d c w))
     \<subseteq> {\<lparr>database = config_database conf, defaultAccessMode = READ\<rparr>}"
  "set (run_queries (trace_of conf d c w)) \<subseteq> set service_queries"
  by (cases c; auto simp: service_defs run_queries_def service_queries_def Let_def split: prod.splits sum.splits if_splits)+

text \<open>
  Claim C5. Every session the service asks for is configured with the database of the
  configuration and the access mode \<open>READ\<close>, every query runs in such a session, and
  every query text is one of the six read queries of the service; hence a driver that
  leaves the database alone on these (what a read query is) has the database unchanged
  after every operation.
\<close>

theorem C5_reads_only:
  "(\<forall>cfg \<in> set (sessions_requested (trace_of conf d c w)).
       database cfg = config_database conf \<and> defaultAccessMode cfg = READ)
   \<and> (\<forall>cfg \<in> set (run_sessions (trace_of conf d c w)). defaultAccessMode cfg = READ)
   \<and> (\<forall>q \<in> set (run_queries (trace_of conf d c w)). q \<in> set service_queries)
   \<and> (reads_only db d \<longrightarrow> db (world_after conf d c w) = db w)"
proof (intro conjI ballI impI)
  fix cfg assume "cfg \<in> set (sessions_requested (trace_of conf d c w))"
  with trace_sessions(1) [of conf d c w]
  have "cfg = \<lparr>database = config_database conf, defaultAccessMode = READ\<rparr>" by blast
  then show "database cfg = config_database conf" "defaultAccessMode cfg = READ" by simp_all
next
  fix cfg assume "cfg \<in> set (run_sessions (trace_of conf d c w))"
  with trace_sessions(2) [of conf d c w]
  have "cfg = \<lparr>database = config_database conf, defaultAccessMode = READ\<rparr>" by blast
  then show "defaultAccessMode cfg = READ" by simp
next
  fix q assume "q \<in> set (run_queries (trace_of conf d c w))"
  with trace_sessions(3) [of conf d c w] show "q \<in> set service_queries" by blast
next
  assume "reads_only db d"
  from perform_db [OF this, of conf c "(w, [])"] show "db (world_after conf d c w) = db w"
    by (simp add: world_after_def)
qed

lemma example_driver_reads_only: "reads_only g_nodes example_driver"
  by (simp add: reads_only_def example_driver_def example_run_def Let_def split: option.splits)

theorem C5_reads_only_witness:
  "reads_only g_nodes example_driver
   \<and> g_nodes (world_after example_config example_driver GetAllPapers example_graph)
       = g_nodes example_graph
   \<and> sessions_requested (trace_of example_config example_driver GetAllPapers example_graph)
       = [\<lparr>database = ''neo4j'', defaultAccessMode = READ\<rparr>]
   \<and> run_queries (trace_of example_config example_driver GetAllPapers example_graph)
       = [labels_query, all_nodes_query]"
proof -
  have req: "sessions_requested (trace_of example_config example_driver GetAllPapers example_graph)
       = [\<lparr>database = ''neo4j'', defaultAccessMode = READ\<rparr>]"
    by code_simp
  have run: "run_queries (trace_of example_config example_driver GetAllPapers example_graph)
       = [labels_query, all_nodes_query]"
    by code_simp
  show ?thesis
    using req run example_driver_reads_only
      C5_reads_only [of example_config example_driver GetAllPapers example_graph g_nodes]
    by simp
qed

subsection \<open>Sessions\<close>

text \<open>
  Claim C8. In every call of the four operations, whether it returns or throws, the
  sessions closed are exactly the sessions opened, there is at most one, and when a
  session was opened the call starts by opening it and ends by closing it.
\<close>

theorem C8_session_closed_once:
  "sessions_closed (trace_of conf d c w) = sessions_opened (trace_of conf d c w)
   \<and> length (sessions_opened (trace_of conf d c w)) \<le> 1
   \<and> (sessions_opened (trace_of conf d c w) \<noteq> [] \<longrightarrow>
        (\<exists>cfg. hd (trace_of conf d c w) = SessionOpened cfg \<and> last (trace_of conf d c w) = SessionClosed cfg))"
  by (cases c) (auto simp: service_defs Let_def split: prod.splits sum.splits if_splits)

theorem C8_session_closed_once_witness:
  "sessions_opened (trace_of example_config no_query_driver GetAllPapers example_graph)
     = [\<lparr>database = ''neo4j'', defaultAccessMode = READ\<rparr>]
   \<and> sessions_closed (trace_of example_config no_query_driver GetAllPapers example_graph)
     = [\<lparr>database = ''neo4j'', defaultAccessMode = READ\<rparr>]
   \<and> (\<exists>cfg. hd (trace_of example_config no_query_driver GetAllPapers example_graph) = SessionOpened cfg
        \<and> last (trace_of example_config no_query_driver GetAllPapers example_graph) = SessionClosed cfg)"
proof -
  have opened: "sessions_opened (trace_of example_config no_query_driver GetAllPapers example_graph)
     = [\<lparr>database = ''neo4j'', defaultAccessMode = READ\<rparr>]"
    by code_simp
  show ?thesis
    using opened C8_session_closed_once [of example_config no_query_driver GetAllPapers example_graph]
    by simp
qed

subsection \<open>Errors\<close>

lemma returns_without_failure:
  "threw conf d c w \<or> (\<forall>ev \<in> set (trace_of conf d c w). \<not> failed_event ev)"
  by (cases c) (auto simp: service_defs Let_def split: prod.splits sum.splits if_splits)

text \<open>
  Claim C3, as the code has it, \<^verbatim>\<open>session.close()\<close> being taken to resolve. Let the
  session be created. Then every error \<open>e\<close> raised inside the \<^verbatim>\<open>try\<close> block of an
  operation is thrown again as an \<^verbatim>\<open>Error\<close> whose message is the prefix of the operation
  followed by the message of \<open>e\<close>: an error of the driver from \<^verbatim>\<open>session.run\<close> (either
  query of \<^verbatim>\<open>getAllPapers\<close>, the query of \<^verbatim>\<open>getPaperDetails\<close>, the query of
  \<^verbatim>\<open>getRelatedPapers\<close>), an error of \<^verbatim>\<open>neo4j.int\<close> on the \<^verbatim>\<open>paperId\<close>, and an error
  raised while the records are read. An error of the driver thrown while the session is
  created (\<^verbatim>\<open>getSession\<close> runs before the \<^verbatim>\<open>try\<close>) is rethrown as it is, without the
  prefix. No operation returns normally after a driver call of its own has failed.
\<close>

theorem C3_wraps_errors:
  assumes cfg: "cfg = \<lparr>database = config_database conf, defaultAccessMode = READ\<rparr>"
  shows
  "(\<forall>e w0. drv_session d cfg w = (Inl e, w0) \<longrightarrow>
       fst (getAllPapers conf d (w, t)) = Inl e
       \<and> fst (getPaperDetails conf d paperId (w, t)) = Inl e
       \<and> fst (getRelatedPapers conf d paperId (w, t)) = Inl e)
   \<and> (\<forall>u w0. drv_session d cfg w = (Inr u, w0) \<longrightarrow>
        (\<forall>e w1. drv_run d cfg labels_query [] w0 = (Inl e, w1) \<longrightarrow>
           fst (getAllPapers conf d (w, t)) = Inl (Error (''Failed to fetch papers: '' @ err_message e)))
        \<and> (\<forall>labelsRecords w1 e. drv_run d cfg labels_query [] w0 = (Inr labelsRecords, w1)
              \<and> first_record_get labelsRecords ''labels'' = Inl e \<longrightarrow>
           fst (getAllPapers conf d (w, t)) = Inl (Error (''Failed to fetch papers: '' @ err_message e)))
        \<and> (\<forall>labelsRecords w1 labels e w2. drv_run d cfg labels_query [] w0 = (Inr labelsRecords, w1)
              \<and> first_record_get labelsRecords ''labels'' = Inr labels
              \<and> drv_run d cfg all_nodes_query [] w1 = (Inl e, w2) \<longrightarrow>
           fst (getAllPapers conf d (w, t)) = Inl (Error (''Failed to fetch papers: '' @ err_message e)))
        \<and> (\<forall>labelsRecords w1 labels records w2 e. drv_run d cfg labels_query [] w0 = (Inr labelsRecords, w1)
              \<and> first_record_get labelsRecords ''labels'' = Inr labels
              \<and> drv_run d cfg all_nodes_query [] w1 = (Inr records, w2)
              \<and> map_throwing paper_of_record records = Inl e \<longrightarrow>
           fst (getAllPapers conf d (w, t)) = Inl (Error (''Failed to fetch papers: '' @ err_message e)))
        \<and> (\<forall>e. neo4j_int d paperId = Inl e \<longrightarrow>
           fst (getPaperDetails conf d paperId (w, t))
             = Inl (Error (''Failed to fetch paper details: '' @ err_message e))
           \<and> fst (getRelatedPapers conf d paperId (w, t))
             = Inl (Error (''Failed to fetch related papers: '' @ err_message e)))
        \<and> (\<forall>pid e w1. neo4j_int d paperId = Inr pid
              \<and> drv_run d cfg paper_details_query [(''paperId'', pid)] w0 = (Inl e, w1) \<longrightarrow>
           fst (getPaperDetails conf d paperId (w, t))
             = Inl (Error (''Failed to fetch paper details: '' @ err_message e)))
        \<and> (\<forall>pid records w1 e. neo4j_int d paperId = Inr pid
              \<and> drv_run d cfg paper_details_query [(''paperId'', pid)] w0 = (Inr records, w1)
              \<and> first_record_get records ''n'' = Inl e \<longrightarrow>
           fst (getPaperDetails conf d paperId (w, t))
             = Inl (Error (''Failed to fetch paper details: '' @ err_message e)))
        \<and> (\<forall>pid records w1 paper e. neo4j_int d paperId = Inr pid
              \<and> drv_run d cfg paper_details_query [(''paperId'', pid)] w0 = (Inr records, w1)
              \<and> first_record_get records ''n'' = Inr paper \<and> truthy paper
              \<and> object_of_node paper = Inl e \<longrightarrow>
           fst (getPaperDetails conf d paperId (w, t))
             = Inl (Error (''Failed to fetch paper details: '' @ err_message e)))
        \<and> (\<forall>pid e w1. neo4j_int d paperId = Inr pid
              \<and> drv_run d cfg related_papers_query [(''paperId'', pid)] w0 = (Inl e, w1) \<longrightarrow>
           fst (getRelatedPapers conf d paperId (w, t))
             = Inl (Error (''Failed to fetch related papers: '' @ err_message e)))
        \<and> (\<forall>pid records w1 e. neo4j_int d paperId = Inr pid
              \<and> drv_run d cfg related_papers_query [(''paperId'', pid)] w0 = (Inr records, w1)
              \<and> map_throwing related_of_record records = Inl e \<longrightarrow>
           fst (getRelatedPapers conf d paperId (w, t))
             = Inl (Error (''Failed to fetch related papers: '' @ err_message e))))
   \<and> ((\<exists>ev \<in> set (trace_of conf d c w'). failed_event ev) \<longrightarrow> threw conf d c w')"
proof (intro conjI impI)
  assume "\<exists>ev \<in> set (trace_of conf d c w'). failed_event ev"
  then show "threw conf d c w'"
    using returns_without_failure [of conf d c w'] by blast
next
  show "\<forall>e w0. drv_session d cfg w = (Inl e, w0) \<longrightarrow>
       fst (getAllPapers conf d (w, t)) = Inl e
       \<and> fst (getPaperDetails conf d paperId (w, t)) = Inl e
       \<and> fst (getRelatedPapers conf d paperId (w, t)) = Inl e"
    by (simp add: cfg getAllPapers_def getPaperDetails_def getRelatedPapers_def getSession_def Let_def)
next
  show "\<forall>u w0. drv_session d cfg w = (Inr u, w0) \<longrightarrow>
        (\<forall>e w1. drv_run d cfg labels_query [] w0 = (Inl e, w1) \<longrightarrow>
           fst (getAllPapers conf d (w, t)) = Inl (Error (''Failed to fetch papers: '' @ err_message e)))
        \<and> (\<forall>labelsRecords w1 e. drv_run d cfg labels_query [] w0 = (Inr labelsRecords, w1)
              \<and> first_record_get labelsRecords ''labels'' = Inl e \<longrightarrow>
           fst (getAllPapers conf d (w, t)) = Inl (Error (''Failed to fetch papers: '' @ err_message e)))
        \<and> (\<forall>labelsRecords w1 labels e w2. drv_run d cfg labels_query [] w0 = (Inr labelsRecords, w1)
              \<and> first_record_get labelsRecords ''labels'' = Inr labels
              \<and> drv_run d cfg all_nodes_query [] w1 = (Inl e, w2) \<longrightarrow>
           fst (getAllPapers conf d (w, t)) = Inl (Error (''Failed to fetch papers: '' @ err_message e)))
        \<and> (\<forall>labelsRecords w1 labels records w2 e. drv_run d cfg labels_query [] w0 = (Inr labelsRecords, w1)
              \<and> first_record_get labelsRecords ''labels'' = Inr labels
              \<and> drv_run d cfg all_nodes_query [] w1 = (Inr records, w2)
              \<and> map_throwing paper_of_record records = Inl e \<longrightarrow>
           fst (getAllPapers conf d (w, t)) = Inl (Error (''Failed to fetch papers: '' @ err_message e)))
        \<and> (\<forall>e. neo4j_int d paperId = Inl e \<longrightarrow>
           fst (getPaperDetails conf d paperId (w, t))
             = Inl (Error (''Failed to fetch paper details: '' @ err_message e))
           \<and> fst (getRelatedPapers conf d paperId (w, t))
             = Inl (Error (''Failed to fetch related papers: '' @ err_message e)))
        \<and> (\<forall>pid e w1. neo4j_int d paperId = Inr pid
              \<and> drv_run d cfg paper_details_query [(''paperId'', pid)] w0 = (Inl e, w1) \<longrightarrow>
           fst (getPaperDetails conf d paperId (w, t))
             = Inl (Error (''Failed to fetch paper details: '' @ err_message e)))
        \<and> (\<forall>pid records w1 e. neo4j_int d paperId = Inr pid
              \<and> drv_run d cfg paper_details_query [(''paperId'', pid)] w0 = (Inr records, w1)
              \<and> first_record_get records ''n'' = Inl e \<longrightarrow>
           fst (getPaperDetails conf d paperId (w, t))
             = Inl (Error (''Failed to fetch paper details: '' @ err_message e)))
        \<and> (\<forall>pid records w1 paper e. neo4j_int d paperId = Inr pid
              \<and> drv_run d cfg paper_details_query [(''paperId'', pid)] w0 = (Inr records, w1)
              \<and> first_record_get records ''n'' = Inr paper \<and> truthy paper
              \<and> object_of_node paper = Inl e \<longrightarrow>
           fst (getPaperDetails conf d paperId (w, t))
             = Inl (Error (''Failed to fetch paper details: '' @ err_message e)))
        \<and> (\<forall>pid e w1. neo4j_int d paperId = Inr pid
              \<and> drv_run d cfg related_papers_query [(''paperId'', pid)] w0 = (Inl e, w1) \<longrightarrow>
           fst (getRelatedPapers conf d paperId (w, t))
             = Inl (Error (''Failed to fetch related papers: '' @ err_message e)))
        \<and> (\<forall>pid records w1 e. neo4j_int d paperId = Inr pid
              \<and> drv_run d cfg related_papers_query [(''paperId'', pid)] w0 = (Inr records, w1)
              \<and> map_throwing related_of_record records = Inl e \<longrightarrow>
           fst (getRelatedPapers conf d paperId (w, t))
             = Inl (Error (''Failed to fetch related papers: '' @ err_message e)))"
    by (simp add: cfg getAllPapers_def getAllPapers_try_def getPaperDetails_def getPaperDetails_try_def
          getRelatedPapers_def getRelatedPapers_try_def getSession_def session_run_def Let_def)
qed

theorem C3_wraps_errors_witness:
  "fst (getAllPapers example_config no_query_driver (example_graph, []))
     = Inl (Error ''Failed to fetch papers: Connection lost'')
   \<and> fst (getPaperDetails example_config no_query_driver (JNum 915) (example_graph, []))
     = Inl (Error ''Failed to fetch paper details: Connection lost'')
   \<and> fst (getRelatedPapers example_config no_query_driver (JNum 915) (example_graph, []))
     = Inl (Error ''Failed to fetch related papers: Connection lost'')
   \<and> fst (getPaperDetails example_config example_driver (JStr ''915'') (example_graph, []))
     = Inl (Error ''Failed to fetch paper details: number format error'')
   \<and> fst (getAllPapers example_config no_session_driver (example_graph, []))
     = Inl \<lparr>err_code = Some ''ServiceUnavailable'', err_message = ''Driver is closed''\<rparr>
   \<and> threw example_config no_query_driver GetAllPapers example_graph"
proof -
  let ?cfg = "\<lparr>database = ''neo4j'', defaultAccessMode = READ\<rparr>"
  let ?e = "\<lparr>err_code = Some ''SessionExpired'', err_message = ''Connection lost''\<rparr>"
  let ?e' = "\<lparr>err_code = Some ''ServiceUnavailable'', err_message = ''Driver is closed''\<rparr>"
  have cfg: "?cfg = \<lparr>database = config_database example_config, defaultAccessMode = READ\<rparr>"
    by (simp add: example_config_def)
  have s1: "drv_session no_query_driver ?cfg example_graph = (Inr (), example_graph)"
    and s2: "drv_session example_driver ?cfg example_graph = (Inr (), example_graph)"
    and s3: "drv_session no_session_driver ?cfg example_graph = (Inl ?e', example_graph)"
    by (simp_all add: no_query_driver_def no_session_driver_def example_driver_def)
  have r1: "drv_run no_query_driver ?cfg labels_query [] example_graph = (Inl ?e, example_graph)"
    and r2: "drv_run no_query_driver ?cfg paper_details_query [(''paperId'', 915)] example_graph
               = (Inl ?e, example_graph)"
    and r3: "drv_run no_query_driver ?cfg related_papers_query [(''paperId'', 915)] example_graph
               = (Inl ?e, example_graph)"
    by (simp_all add: no_query_driver_def)
  have i1: "neo4j_int no_query_driver (JNum 915) = Inr 915"
    and i2: "neo4j_int example_driver (JStr ''915'') = Inl (Error ''number format error'')"
    by (simp_all add: no_query_driver_def example_driver_def)
  have f: "\<exists>ev \<in> set (trace_of example_config no_query_driver GetAllPapers example_graph). failed_event ev"
    by code_simp
  note q = C3_wraps_errors [OF cfg, of no_query_driver example_graph "[]" "JNum 915" GetAllPapers example_graph]
  note p = C3_wraps_errors [OF cfg, of example_driver example_graph "[]" "JStr ''915''" GetAllPapers example_graph]
  note n = C3_wraps_errors [OF cfg, of no_session_driver example_graph "[]" "JNum 915" GetAllPapers example_graph]
  note qs = q [THEN conjunct2, THEN conjunct1, rule_format, OF s1]
  note ps = p [THEN conjunct2, THEN conjunct1, rule_format, OF s2]
  have "fst (getAllPapers example_config no_query_driver (example_graph, []))
     = Inl (Error (''Failed to fetch papers: '' @ err_message ?e))"
    by (rule qs [THEN conjunct1, rule_format, OF r1])
  moreover have "fst (getPaperDetails example_config no_query_driver (JNum 915) (example_graph, []))
     = Inl (Error (''Failed to fetch paper details: '' @ err_message ?e))"
    by (rule qs [THEN conjunct2, THEN conjunct2, THEN conjunct2, THEN conjunct2, THEN conjunct2,
                 THEN conjunct1, rule_format, OF conjI [OF i1 r2]])
  moreover have "fst (getRelatedPapers example_config no_query_driver (JNum 915) (example_graph, []))
     = Inl (Error (''Failed to fetch related papers: '' @ err_message ?e))"
    by (rule qs [THEN conjunct2, THEN conjunct2, THEN conjunct2, THEN conjunct2, THEN conjunct2,
                 THEN conjunct2, THEN conjunct2, THEN conjunct2, THEN conjunct1, rule_format,
                 OF conjI [OF i1 r3]])
  moreover have "fst (getPaperDetails example_config example_driver (JStr ''915'') (example_graph, []))
     = Inl (Error (''Failed to fetch paper details: '' @ err_message (Error ''number format error'')))"
    by (rule ps [THEN conjunct2, THEN conjunct2, THEN conjunct2, THEN conjunct2,
                 THEN conjunct1, rule_format, OF i2, THEN conjunct1])
  moreover have "fst (getAllPapers example_config no_session_driver (example_graph, [])) = Inl ?e'"
    by (rule n [THEN conjunct1, rule_format, OF s3, THEN conjunct1])
  moreover have "threw example_config no_query_driver GetAllPapers example_graph"
    by (rule q [THEN conjunct2, THEN conjunct2, rule_format, OF f])
  ultimately show ?thesis by (simp add: Error_def)
qed

text \<open>
  Claim C3 as the specification words it fails for an error of the driver raised when
  the session is created: \<^verbatim>\<open>getAllPapers\<close> throws that error itself, not an \<^verbatim>\<open>Error\<close>
  with the prefixed message.
\<close>

theorem C3_counterexample:
  "fst (getAllPapers example_config no_session_driver (example_graph, []))
     = Inl \<lparr>err_code = Some ''ServiceUnavailable'', err_message = ''Driver is closed''\<rparr>
   \<and> fst (getAllPapers example_config no_session_driver (example_graph, []))
     \<noteq> Inl (Error (''Failed to fetch papers: '' @ ''Driver is closed''))
   \<and> fst (drv_session no_session_driver \<lparr>database = ''neo4j'', defaultAccessMode = READ\<rparr> example_graph)
     = Inl \<lparr>err_code = Some ''ServiceUnavailable'', err_message = ''Driver is closed''\<rparr>"
  by code_simp



subsection \<open>The objects returned for nodes\<close>

lemma map_of_obj_set: "map_of (obj_set k v obj) = (map_of obj)(k \<mapsto> v)"
  by (simp add: obj_set_def update_conv')

lemma map_of_obj_spread:
  "distinct (map fst props) \<Longrightarrow>
   map_of (obj_spread obj props) key =
     (case map_of props key of Some v \<Rightarrow> Some v | None \<Rightarrow> map_of obj key)"
proof (induction props arbitrary: obj)
  case Nil
  then show ?case by simp
next
  case (Cons p props)
  obtain k v where p: "p = (k, v)" by (cases p)
  from Cons.prems p have d: "distinct (map fst props)" and k: "k \<notin> fst ` set props" by auto
  have none: "map_of props k = None"
    using k by (simp add: map_of_eq_None_iff)
  show ?case
    using Cons.IH [OF d, of "obj_set k v obj"] none
    by (auto simp: p map_of_obj_set split: option.splits)
qed

lemma obj_get_spread_id:
  "distinct (map fst props) \<Longrightarrow>
   obj_get (obj_spread [(''id'', JStr (toString i))] props) key = node_field i props key"
  by (simp add: obj_get_def node_field_def map_of_obj_spread split: option.splits)

lemma object_of_node_JNode:
  "object_of_node (JNode i props) = Inr (obj_spread [(''id'', JStr (toString i))] props)"
  by (simp add: object_of_node_def)

lemma map_throwing_Inr:
  "map_throwing f xs = Inr ys \<Longrightarrow> list_all2 (\<lambda>x y. f x = Inr y) xs ys"
  by (induction xs arbitrary: ys) (auto split: sum.splits)

lemma map_throwing_all_Inr:
  "\<forall>x \<in> set xs. \<exists>y. f x = Inr y \<Longrightarrow> \<exists>ys. map_throwing f xs = Inr ys"
  by (induction xs) (auto split: sum.splits)


lemma related_of_record_JNode:
  "record_get r ''related'' = Inr (JNode i props) \<Longrightarrow>
   related_of_record r = Inr (obj_spread [(''id'', JStr (toString i))] props)"
  by (simp add: related_of_record_def object_of_node_JNode)

lemma getRelatedPapers_result:
  assumes "getSession conf d s = (Inr cfg, s0)"
    and "neo4j_int d paperId = Inr pid"
    and "session_run d cfg related_papers_query [(''paperId'', pid)] s0 = (Inr records, s1)"
  shows "fst (getRelatedPapers conf d paperId s) =
           (case map_throwing related_of_record records of
              Inl e \<Rightarrow> Inl (Error (''Failed to fetch related papers: '' @ err_message e))
            | Inr related \<Rightarrow> Inr related)"
  using assms
  by (simp add: getRelatedPapers_def getRelatedPapers_try_def split: sum.splits)

text \<open>
  Claim C9, as the code has it. When the session opens, \<^verbatim>\<open>neo4j.int\<close> accepts the
  \<^verbatim>\<open>paperId\<close> and the query succeeds: with no record, \<^verbatim>\<open>getPaperDetails\<close> returns
  \<^verbatim>\<open>null\<close>; with a node in the first record it returns an object that holds every
  property of the node, and whose \<^verbatim>\<open>id\<close> is the string of the node's identity unless
  the node has a property named \<^verbatim>\<open>id\<close>, whose value then stands.
\<close>

theorem C9_paper_details:
  assumes "getSession conf d s = (Inr cfg, s0)"
    and "neo4j_int d paperId = Inr pid"
    and "session_run d cfg paper_details_query [(''paperId'', pid)] s0 = (Inr records, s1)"
  shows "(records = [] \<longrightarrow> fst (getPaperDetails conf d paperId s) = Inr None)
       \<and> (\<forall>r rest i props.
            records = r # rest \<and> record_get r ''n'' = Inr (JNode i props) \<and> distinct (map fst props) \<longrightarrow>
            (\<exists>obj. fst (getPaperDetails conf d paperId s) = Inr (Some obj)
                  \<and> (\<forall>key. obj_get obj key = node_field i props key)
                  \<and> (''id'' \<notin> fst ` set props \<longrightarrow> obj_get obj ''id'' = JStr (toString i))))"
proof (intro conjI allI impI)
  assume "records = []"
  with assms show "fst (getPaperDetails conf d paperId s) = Inr None"
    by (simp add: getPaperDetails_def getPaperDetails_try_def first_record_get_def)
next
  fix r rest i props
  assume h: "records = r # rest \<and> record_get r ''n'' = Inr (JNode i props) \<and> distinct (map fst props)"
  let ?obj = "obj_spread [(''id'', JStr (toString i))] props"
  have res: "fst (getPaperDetails conf d paperId s) = Inr (Some ?obj)"
    using assms h
    by (simp add: getPaperDetails_def getPaperDetails_try_def first_record_get_def object_of_node_JNode)
  have fields: "\<forall>key. obj_get ?obj key = node_field i props key"
    using h by (simp add: obj_get_spread_id)
  have ident: "''id'' \<notin> fst ` set props \<longrightarrow> obj_get ?obj ''id'' = JStr (toString i)"
    using fields by (auto simp: node_field_def map_of_eq_None_iff split: option.splits)
  from res fields ident
  show "\<exists>obj. fst (getPaperDetails conf d paperId s) = Inr (Some obj)
                  \<and> (\<forall>key. obj_get obj key = node_field i props key)
                  \<and> (''id'' \<notin> fst ` set props \<longrightarrow> obj_get obj ''id'' = JStr (toString i))"
    by blast
qed

theorem C9_paper_details_witness:
  "fst (getPaperDetails example_config example_driver (JNum 9) (example_graph, [])) = Inr None
   \<and> (\<exists>obj. fst (getPaperDetails example_config example_driver (JNum 915) (example_graph, []))
               = Inr (Some obj)
            \<and> obj_get obj ''id'' = JStr (toString 915)
            \<and> obj_get obj ''name'' = JStr ''The Nexus (SHSID)'')"
proof -
  let ?cfg = "\<lparr>database = ''neo4j'', defaultAccessMode = READ\<rparr>"
  let ?s0 = "(example_graph, [SessionOpened ?cfg])"
  have a1: "getSession example_config example_driver (example_graph, []) = (Inr ?cfg, ?s0)"
    by code_simp
  have a2: "neo4j_int example_driver (JNum 9) = Inr 9" "neo4j_int example_driver (JNum 915) = Inr 915"
    by (simp_all add: example_driver_def)
  have a3: "session_run example_driver ?cfg paper_details_query [(''paperId'', 9)] ?s0
      = (Inr [], (example_graph\<lparr>g_served := 1\<rparr>,
                  [SessionOpened ?cfg, Run ?cfg paper_details_query [(''paperId'', 9)] True]))"
    by code_simp
  have a4: "session_run example_driver ?cfg paper_details_query [(''paperId'', 915)] ?s0
      = (Inr [[(''n'', JNode 915 [(''name'', JStr ''The Nexus (SHSID)'')])]],
         (example_graph\<lparr>g_served := 1\<rparr>,
          [SessionOpened ?cfg, Run ?cfg paper_details_query [(''paperId'', 915)] True]))"
    by code_simp
  have null: "fst (getPaperDetails example_config example_driver (JNum 9) (example_graph, [])) = Inr None"
    using C9_paper_details [OF a1 a2(1) a3] by simp
  from C9_paper_details [OF a1 a2(2) a4]
  obtain obj where res: "fst (getPaperDetails example_config example_driver (JNum 915) (example_graph, []))
               = Inr (Some obj)"
    and fields: "\<forall>key. obj_get obj key = node_field 915 [(''name'', JStr ''The Nexus (SHSID)'')] key"
    by (auto simp: record_get_def)
  from fields have "obj_get obj ''id'' = JStr (toString 915)"
    and "obj_get obj ''name'' = JStr ''The Nexus (SHSID)''"
    by (simp_all add: node_field_def)
  with null res show ?thesis by blast
qed

text \<open>
  Claim C9 as the specification words it fails for a node that has a property named
  \<^verbatim>\<open>id\<close>: the spread of the properties comes after \<^verbatim>\<open>id\<close> in the object literal and
  replaces the identity.
\<close>

theorem C9_counterexample:
  "fst (getPaperDetails example_config example_driver (JNum 917) (example_graph, []))
     = Inr (Some [(''id'', JStr ''paper-917''), (''name'', JStr ''Innovation'')])
   \<and> JStr ''paper-917'' \<noteq> JStr (toString 917)
   \<and> JNode 917 [(''id'', JStr ''paper-917''), (''name'', JStr ''Innovation'')] \<in> set (g_nodes example_graph)"
  by code_simp

lemma limit_10_text: "\<exists>text. related_papers_query = text @ ''LIMIT 10''"
  by (rule exI [of _ "''MATCH (n)-[r]-(related)'' @ [CHR 0x0A] @ ''         WHERE id(n) = $paperId''
          @ [CHR 0x0A] @ ''         RETURN related'' @ [CHR 0x0A] @ ''         ''"])
     (simp add: related_papers_query_def)

lemma getRelatedPapers_Inr:
  assumes "fst (getRelatedPapers conf d paperId s) = Inr related"
  shows "\<exists>cfg pid w records w'.
           drv_run d cfg related_papers_query [(''paperId'', pid)] w = (Inr records, w')
           \<and> map_throwing related_of_record records = Inr related"
  using assms
  by (auto simp: getRelatedPapers_def getRelatedPapers_try_def getSession_def session_run_def Let_def
           split: prod.splits sum.splits)
     blast

lemma related_at_most_10:
  assumes "honours_limit_10 d" "fst (getRelatedPapers conf d paperId s) = Inr related"
  shows "length related \<le> 10"
proof -
  from getRelatedPapers_Inr [OF assms(2)]
  obtain cfg pid w records w' where
    run: "drv_run d cfg related_papers_query [(''paperId'', pid)] w = (Inr records, w')"
    and m: "map_throwing related_of_record records = Inr related"
    by blast
  have "length records \<le> 10"
    using assms(1) limit_10_text run unfolding honours_limit_10_def by blast
  moreover have "length related = length records"
    using m by (auto dest!: map_throwing_Inr list_all2_lengthD)
  ultimately show ?thesis by simp
qed

lemma ends_in_0: "q = text @ ''LIMIT 10'' \<Longrightarrow> last q = CHR ''0''"
  by simp

lemma example_driver_honours_limit: "honours_limit_10 example_driver"
  unfolding honours_limit_10_def
proof (intro allI impI)
  fix cfg q ps w records w'
  assume "\<exists>text. q = text @ ''LIMIT 10''"
  then have l: "last q = CHR ''0''" using ends_in_0 by blast
  have ne: "q \<noteq> all_nodes_query" "q \<noteq> paper_details_query"
    using l by (auto simp: all_nodes_query_def paper_details_query_def)
  assume "drv_run example_driver cfg q ps w = (Inr records, w')"
  then show "length records \<le> 10"
    using ne
    by (auto simp: example_driver_def example_run_def Let_def split: if_splits option.splits)
qed

text \<open>
  Claim C10, as the code has it. The code does not truncate the result: when the session
  opens, \<^verbatim>\<open>neo4j.int\<close> accepts the \<^verbatim>\<open>paperId\<close> and the query succeeds,
  \<^verbatim>\<open>getRelatedPapers\<close> returns one object per record of the result, in order. The text of
  the query ends in \<^verbatim>\<open>LIMIT 10\<close>, so for every \<^verbatim>\<open>paperId\<close> and every state, with a driver
  that honours the clause, whatever \<^verbatim>\<open>getRelatedPapers\<close> returns has at most 10 objects.
  The object of a node holds every property of the node, and its \<^verbatim>\<open>id\<close> is the string
  of the node's identity unless the node has a property named \<^verbatim>\<open>id\<close>.
\<close>

theorem C10_related_papers:
  "(honours_limit_10 d \<longrightarrow>
      (\<forall>related. fst (getRelatedPapers conf d paperId s) = Inr related \<longrightarrow> length related \<le> 10))
   \<and> (\<forall>cfg s0 pid records s1.
        getSession conf d s = (Inr cfg, s0) \<and> neo4j_int d paperId = Inr pid
        \<and> session_run d cfg related_papers_query [(''paperId'', pid)] s0 = (Inr records, s1) \<longrightarrow>
        (\<forall>related. fst (getRelatedPapers conf d paperId s) = Inr related \<longrightarrow>
           length related = length records)
        \<and> ((\<forall>r \<in> set records. \<exists>i props. record_get r ''related'' = Inr (JNode i props)) \<longrightarrow>
            (\<exists>related. fst (getRelatedPapers conf d paperId s) = Inr related
               \<and> list_all2 (\<lambda>r obj. \<forall>i props.
                     record_get r ''related'' = Inr (JNode i props) \<and> distinct (map fst props) \<longrightarrow>
                       (\<forall>key. obj_get obj key = node_field i props key)
                       \<and> (''id'' \<notin> fst ` set props \<longrightarrow> obj_get obj ''id'' = JStr (toString i)))
                   records related)))"
proof (intro conjI allI impI)
  fix related
  assume "honours_limit_10 d" "fst (getRelatedPapers conf d paperId s) = Inr related"
  then show "length related \<le> 10" by (rule related_at_most_10)
next
  fix cfg s0 pid records s1 related
  assume h: "getSession conf d s = (Inr cfg, s0) \<and> neo4j_int d paperId = Inr pid
        \<and> session_run d cfg related_papers_query [(''paperId'', pid)] s0 = (Inr records, s1)"
  assume "fst (getRelatedPapers conf d paperId s) = Inr related"
  then have "map_throwing related_of_record records = Inr related"
    using h by (simp add: getRelatedPapers_result [of conf d s cfg s0 paperId pid records s1]
                     split: sum.splits)
  then show "length related = length records"
    by (auto dest!: map_throwing_Inr list_all2_lengthD)
next
  fix cfg s0 pid records s1
  assume h: "getSession conf d s = (Inr cfg, s0) \<and> neo4j_int d paperId = Inr pid
        \<and> session_run d cfg related_papers_query [(''paperId'', pid)] s0 = (Inr records, s1)"
  assume nodes: "\<forall>r \<in> set records. \<exists>i props. record_get r ''related'' = Inr (JNode i props)"
  then have "\<forall>r \<in> set records. \<exists>obj. related_of_record r = Inr obj"
    by (fastforce dest: related_of_record_JNode)
  then obtain related where m: "map_throwing related_of_record records = Inr related"
    using map_throwing_all_Inr by blast
  have res: "fst (getRelatedPapers conf d paperId s) = Inr related"
    using h by (simp add: getRelatedPapers_result [of conf d s cfg s0 paperId pid records s1] m)
  have "list_all2 (\<lambda>r obj. related_of_record r = Inr obj) records related"
    using m by (rule map_throwing_Inr)
  then have "list_all2 (\<lambda>r obj. \<forall>i props.
                     record_get r ''related'' = Inr (JNode i props) \<and> distinct (map fst props) \<longrightarrow>
                       (\<forall>key. obj_get obj key = node_field i props key)
                       \<and> (''id'' \<notin> fst ` set props \<longrightarrow> obj_get obj ''id'' = JStr (toString i)))
                   records related"
  proof (rule list_all2_mono)
    fix r obj
    assume ro: "related_of_record r = Inr obj"
    show "\<forall>i props.
                     record_get r ''related'' = Inr (JNode i props) \<and> distinct (map fst props) \<longrightarrow>
                       (\<forall>key. obj_get obj key = node_field i props key)
                       \<and> (''id'' \<notin> fst ` set props \<longrightarrow> obj_get obj ''id'' = JStr (toString i))"
    proof (intro allI impI)
      fix i props
      assume hh: "record_get r ''related'' = Inr (JNode i props) \<and> distinct (map fst props)"
      with ro have obj: "obj = obj_spread [(''id'', JStr (toString i))] props"
        by (simp add: related_of_record_JNode)
      have fields: "\<forall>key. obj_get obj key = node_field i props key"
        using hh obj by (simp add: obj_get_spread_id)
      moreover have "''id'' \<notin> fst ` set props \<longrightarrow> obj_get obj ''id'' = JStr (toString i)"
        using fields by (auto simp: node_field_def map_of_eq_None_iff split: option.splits)
      ultimately show "(\<forall>key. obj_get obj key = node_field i props key)
                       \<and> (''id'' \<notin> fst ` set props \<longrightarrow> obj_get obj ''id'' = JStr (toString i))"
        by blast
    qed
  qed
  with res show "\<exists>related. fst (getRelatedPapers conf d paperId s) = Inr related
               \<and> list_all2 (\<lambda>r obj. \<forall>i props.
                     record_get r ''related'' = Inr (JNode i props) \<and> distinct (map fst props) \<longrightarrow>
                       (\<forall>key. obj_get obj key = node_field i props key)
                       \<and> (''id'' \<notin> fst ` set props \<longrightarrow> obj_get obj ''id'' = JStr (toString i)))
                   records related"
    by blast
qed

theorem C10_related_papers_witness:
  "honours_limit_10 example_driver
   \<and> (\<exists>related. fst (getRelatedPapers example_config example_driver (JNum 916) (example_graph, []))
               = Inr related
     \<and> length related = 1 \<and> length related \<le> 10
     \<and> list_all2 (\<lambda>r obj. obj_get obj ''id'' = JStr (toString 915) \<and> obj_get obj ''name'' = JStr ''The Nexus (SHSID)'')
         [[(''related'', JNode 915 [(''name'', JStr ''The Nexus (SHSID)'')])]] related)"
proof -
  let ?cfg = "\<lparr>database = ''neo4j'', defaultAccessMode = READ\<rparr>"
  let ?s0 = "(example_graph, [SessionOpened ?cfg])"
  let ?s1 = "(example_graph\<lparr>g_served := 1\<rparr>,
          [SessionOpened ?cfg, Run ?cfg related_papers_query [(''paperId'', 916)] True])"
  let ?records = "[[(''related'', JNode 915 [(''name'', JStr ''The Nexus (SHSID)'')])]]"
  let ?call = "fst (getRelatedPapers example_config example_driver (JNum 916) (example_graph, []))"
  note inst = C10_related_papers [of example_driver example_config "JNum 916" "(example_graph, [])"]
  have a1: "getSession example_config example_driver (example_graph, []) = (Inr ?cfg, ?s0)"
    by code_simp
  have a2: "neo4j_int example_driver (JNum 916) = Inr 916"
    by (simp add: example_driver_def)
  have a3: "session_run example_driver ?cfg related_papers_query [(''paperId'', 916)] ?s0
      = (Inr ?records, ?s1)"
    by code_simp
  have nodes: "\<forall>r \<in> set ?records. \<exists>i props. record_get r ''related'' = Inr (JNode i props)"
    by (simp add: record_get_def)
  from inst a1 a2 a3 nodes
  obtain related where res: "?call = Inr related"
    and all: "list_all2 (\<lambda>r obj. \<forall>i props.
                     record_get r ''related'' = Inr (JNode i props) \<and> distinct (map fst props) \<longrightarrow>
                       (\<forall>key. obj_get obj key = node_field i props key)
                       \<and> (''id'' \<notin> fst ` set props \<longrightarrow> obj_get obj ''id'' = JStr (toString i)))
                   ?records related"
    by blast
  from inst a1 a2 a3 res have len: "length related = length ?records"
    by blast
  from inst example_driver_honours_limit res have bound: "length related \<le> 10"
    by blast
  from all have "list_all2 (\<lambda>r obj. obj_get obj ''id'' = JStr (toString 915) \<and> obj_get obj ''name'' = JStr ''The Nexus (SHSID)'')
         ?records related"
    by (auto simp: list_all2_Cons1 record_get_def node_field_def)
  with res len bound example_driver_honours_limit show ?thesis by auto
qed

text \<open>
  Claim C10 as the specification words it fails for a related node that has a property
  named \<^verbatim>\<open>id\<close>: the object carries that property, not the identity.
\<close>

theorem C10_counterexample:
  "fst (getRelatedPapers example_config example_driver (JNum 915) (example_graph, []))
     = Inr [[(''id'', JStr ''916''), (''title'', JStr ''untitled'')],
            [(''id'', JStr ''paper-917''), (''name'', JStr ''Innovation'')]]
   \<and> JStr ''paper-917'' \<noteq> JStr (toString 917)
   \<and> neighbours example_graph 915
       = [JNode 916 [(''title'', JStr ''untitled'')],
          JNode 917 [(''id'', JStr ''paper-917''), (''name'', JStr ''Innovation'')]]"
  by code_simp


section \<open>The records shown by the view\<close>

lemma paper_names_has_name:
  "paper_names neo4jData = map (\<lambda>p. obj_get p ''name'') (filter has_name neo4jData)"
  by (simp add: paper_names_def has_name_def [abs_def] filter_map comp_def)

lemma StarScene_names: "map node_name (StarScene ps) = ps"
  by (simp add: StarScene_def enumerate_eq_zip comp_def split_def map_snd_zip_take)

lemma StarScene_indices: "map node_index (StarScene ps) = [0..<length ps]"
  by (simp add: StarScene_def enumerate_eq_zip comp_def split_def map_fst_zip_take)

text \<open>
  Claim C6, as the code has it. After a fetch, the list of papers shown by
  \<^verbatim>\<open>StarView\<close> is the list of the names of the records returned by \<^verbatim>\<open>getAllPapers\<close>
  whose \<^verbatim>\<open>name\<close> is a non-empty string, in order: a record without such a name is
  dropped, and the list has one entry per record only when every record has one.
  \<^verbatim>\<open>StarScene\<close> creates one \<^verbatim>\<open>PaperNode\<close> per entry of that list, with its name and index.
\<close>

theorem C6_named_records_displayed:
  "(shouldFetchNewData v now \<and> verifyConnection conf d s = (Inr True, s1)
      \<and> getAllPapers conf d s1 = (Inr neo4jData, s2) \<longrightarrow>
      papers (fst (fetchData conf d now now' (v, s))) = paper_names neo4jData
      \<and> (error v = None \<and> paper_names neo4jData \<noteq> [] \<longrightarrow>
           StarView_render (fst (fetchData conf d now now' (v, s)))
             = StarField (StarScene (paper_names neo4jData))))
   \<and> paper_names neo4jData = map (\<lambda>p. obj_get p ''name'') (filter has_name neo4jData)
   \<and> length (paper_names neo4jData) \<le> length neo4jData
   \<and> ((\<forall>p \<in> set neo4jData. has_name p) \<longrightarrow> length (paper_names neo4jData) = length neo4jData)
   \<and> length (StarScene ps) = length ps
   \<and> map node_name (StarScene ps) = ps
   \<and> map node_index (StarScene ps) = [0..<length ps]"
proof (intro conjI impI)
  assume h: "shouldFetchNewData v now \<and> verifyConnection conf d s = (Inr True, s1)
      \<and> getAllPapers conf d s1 = (Inr neo4jData, s2)"
  then show p: "papers (fst (fetchData conf d now now' (v, s))) = paper_names neo4jData"
    by (simp add: fetchData_def Let_def)
  assume "error v = None \<and> paper_names neo4jData \<noteq> []"
  with h show "StarView_render (fst (fetchData conf d now now' (v, s)))
             = StarField (StarScene (paper_names neo4jData))"
    by (simp add: fetchData_def Let_def StarView_render_def)
next
  show "paper_names neo4jData = map (\<lambda>p. obj_get p ''name'') (filter has_name neo4jData)"
    by (rule paper_names_has_name)
  show "length (paper_names neo4jData) \<le> length neo4jData"
    by (simp add: paper_names_has_name)
  show "length (StarScene ps) = length ps"
    by (simp add: StarScene_def)
  show "map node_name (StarScene ps) = ps" by (rule StarScene_names)
  show "map node_index (StarScene ps) = [0..<length ps]" by (rule StarScene_indices)
next
  assume "\<forall>p \<in> set neo4jData. has_name p"
  then show "length (paper_names neo4jData) = length neo4jData"
    by (simp add: paper_names_has_name)
qed

theorem C6_named_records_displayed_witness:
  "papers (fst (fetchData example_config example_driver 1700000000000 1700000000500
                 (initial_view, (example_graph, []))))
     = [JStr ''The Nexus (SHSID)'', JStr ''Innovation'']
   \<and> StarView_render (fst (fetchData example_config example_driver 1700000000000 1700000000500
                 (initial_view, (example_graph, []))))
     = StarField (StarScene [JStr ''The Nexus (SHSID)'', JStr ''Innovation''])
   \<and> length (StarScene [JStr ''The Nexus (SHSID)'', JStr ''Innovation'']) = 2
   \<and> length (paper_names [[(''id'', JStr ''915''), (''name'', JStr ''The Nexus (SHSID)'')]]) = 1"
proof -
  let ?data = "[[(''id'', JStr ''915''), (''name'', JStr ''The Nexus (SHSID)''), (''labels'', JArr [JStr ''Paper''])],
            [(''id'', JStr ''916''), (''title'', JStr ''untitled''), (''labels'', JArr [JStr ''Paper''])],
            [(''id'', JStr ''paper-917''), (''name'', JStr ''Innovation''), (''labels'', JArr [JStr ''Paper''])]]"
  let ?s1 = "snd (verifyConnection example_config example_driver (example_graph, []))"
  let ?s2 = "snd (getAllPapers example_config example_driver ?s1)"
  have a1: "shouldFetchNewData initial_view 1700000000000"
    by (simp add: shouldFetchNewData_def initial_view_def)
  have a2: "verifyConnection example_config example_driver (example_graph, []) = (Inr True, ?s1)"
    by code_simp
  have a3: "getAllPapers example_config example_driver ?s1 = (Inr ?data, ?s2)"
    by code_simp
  have a4: "\<forall>p \<in> set [[(''id'', JStr ''915''), (''name'', JStr ''The Nexus (SHSID)'')]]. has_name p"
    by (simp add: has_name_def obj_get_def)
  have names: "paper_names ?data = [JStr ''The Nexus (SHSID)'', JStr ''Innovation'']"
    by (simp add: paper_names_def obj_get_def)
  have shown: "papers (fst (fetchData example_config example_driver 1700000000000 1700000000500
                 (initial_view, (example_graph, [])))) = paper_names ?data"
    using a1 a2 a3
      C6_named_records_displayed [where v = initial_view and now = 1700000000000
        and conf = example_config and d = example_driver and s = "(example_graph, [])"
        and ?s1.0 = ?s1 and neo4jData = ?data and ?s2.0 = ?s2 and now' = 1700000000500]
    by blast
  have a5: "error initial_view = None \<and> paper_names ?data \<noteq> []"
    using names by (simp add: initial_view_def)
  have scene: "StarView_render (fst (fetchData example_config example_driver 1700000000000 1700000000500
                 (initial_view, (example_graph, [])))) = StarField (StarScene (paper_names ?data))"
    using a1 a2 a3 a5
      C6_named_records_displayed [where v = initial_view and now = 1700000000000
        and conf = example_config and d = example_driver and s = "(example_graph, [])"
        and ?s1.0 = ?s1 and neo4jData = ?data and ?s2.0 = ?s2 and now' = 1700000000500]
    by blast
  have nodes: "length (StarScene [JStr ''The Nexus (SHSID)'', JStr ''Innovation''])
      = length [JStr ''The Nexus (SHSID)'', JStr ''Innovation'']"
    using C6_named_records_displayed [where ps = "[JStr ''The Nexus (SHSID)'', JStr ''Innovation'']"]
    by blast
  have kept: "length (paper_names [[(''id'', JStr ''915''), (''name'', JStr ''The Nexus (SHSID)'')]])
      = length [[(''id'', JStr ''915''), (''name'', JStr ''The Nexus (SHSID)'')]]"
    using a4 C6_named_records_displayed
      [where neo4jData = "[[(''id'', JStr ''915''), (''name'', JStr ''The Nexus (SHSID)'')]]"]
    by blast
  show ?thesis
    using shown scene names nodes kept by simp
qed

text \<open>
  Claim C6 as the specification words it fails for a node without a \<^verbatim>\<open>name\<close> property:
  \<^verbatim>\<open>getAllPapers\<close> returns three records and the view shows two nodes.
\<close>

theorem C6_counterexample:
  "fst (getAllPapers example_config example_driver
         (snd (verifyConnection example_config example_driver (example_graph, []))))
     = Inr [[(''id'', JStr ''915''), (''name'', JStr ''The Nexus (SHSID)''), (''labels'', JArr [JStr ''Paper''])],
            [(''id'', JStr ''916''), (''title'', JStr ''untitled''), (''labels'', JArr [JStr ''Paper''])],
            [(''id'', JStr ''paper-917''), (''name'', JStr ''Innovation''), (''labels'', JArr [JStr ''Paper''])]]
   \<and> papers (fst (fetchData example_config example_driver 1700000000000 1700000000500
                 (initial_view, (example_graph, []))))
     = [JStr ''The Nexus (SHSID)'', JStr ''Innovation'']
   \<and> StarView_render (fst (fetchData example_config example_driver 1700000000000 1700000000500
                 (initial_view, (example_graph, []))))
     = StarField [\<lparr>node_name = JStr ''The Nexus (SHSID)'', node_index = 0\<rparr>,
                  \<lparr>node_name = JStr ''Innovation'', node_index = 1\<rparr>]"
  by code_simp


section \<open>The fallback data\<close>

declare label_loop.simps [simp del] generate_loop.simps [simp del]

lemma random_floor_bounds:
  fixes r :: rat
  assumes "0 \<le> r" "r < 1" "0 < n"
  shows "0 \<le> \<lfloor>r * of_nat n\<rfloor>" "\<lfloor>r * of_nat n\<rfloor> < int n"
proof -
  show "0 \<le> \<lfloor>r * of_nat n\<rfloor>" using assms by simp
  have "r * of_nat n < 1 * of_nat n"
    using assms by (intro mult_strict_right_mono) simp_all
  then show "\<lfloor>r * of_nat n\<rfloor> < int n"
    by (simp add: floor_less_iff)
qed

lemma random_label_not_Paper:
  fixes r :: rat
  assumes "0 \<le> r" "r < 1"
  shows "array_get labels_pool (\<lfloor>r * of_nat (length labels_pool - 1)\<rfloor> + 1) \<noteq> JStr ''Paper''"
proof -
  define i where "i = \<lfloor>r * of_nat (length labels_pool - 1)\<rfloor>"
  have i: "i = \<lfloor>r * of_nat 6\<rfloor>" by (simp add: i_def labels_pool_def)
  have "0 \<le> i" "i < 6"
    using random_floor_bounds [OF assms, of 6] unfolding i by simp_all
  then have "i = 0 \<or> i = 1 \<or> i = 2 \<or> i = 3 \<or> i = 4 \<or> i = 5" by arith
  then have "array_get labels_pool (i + 1) \<noteq> JStr ''Paper''"
    by (auto simp: array_get_def labels_pool_def)
  then show ?thesis by (simp add: i_def)
qed

lemma label_loop_invariant:
  "distinct paperLabels \<Longrightarrow> paperLabels \<noteq> [] \<Longrightarrow>
   label_loop rnd k j numLabels paperLabels = (result, k') \<Longrightarrow>
   distinct result \<and> hd result = hd paperLabels \<and> length paperLabels \<le> length result
   \<and> int (length result) \<le> int (length paperLabels) + max 0 (numLabels - j)"
proof (induction rnd k j numLabels paperLabels arbitrary: result k' rule: label_loop.induct)
  case (1 rnd k j numLabels paperLabels)
  show ?case
  proof (cases "j < numLabels")
    case False
    with "1.prems" show ?thesis by (simp add: label_loop.simps)
  next
    case True
    define randomLabel where
      "randomLabel = array_get labels_pool (\<lfloor>rnd k * of_nat (length labels_pool - 1)\<rfloor> + 1)"
    define paperLabels' where
      "paperLabels' = (if randomLabel \<in> set paperLabels then paperLabels else paperLabels @ [randomLabel])"
    have step: "label_loop rnd (k + 1) (j + 1) numLabels paperLabels' = (result, k')"
      using "1.prems"(3) True unfolding randomLabel_def paperLabels'_def
      by (subst (asm) label_loop.simps)
         (simp add: Let_def split del: if_split cong del: if_weak_cong)
    have d: "distinct paperLabels'" and ne: "paperLabels' \<noteq> []"
      using "1.prems"(1,2) by (auto simp: paperLabels'_def)
    have ih: "distinct result \<and> hd result = hd paperLabels' \<and> length paperLabels' \<le> length result
        \<and> int (length result) \<le> int (length paperLabels') + max 0 (numLabels - (j + 1))"
      using "1.IH" [OF True randomLabel_def paperLabels'_def d ne step] .
    have "hd paperLabels' = hd paperLabels" "length paperLabels \<le> length paperLabels'"
      "length paperLabels' \<le> length paperLabels + 1"
      using "1.prems"(2) by (auto simp: paperLabels'_def)
    with ih True show ?thesis by auto
  qed
qed

lemma label_loop_first_push:
  assumes "0 \<le> rnd k" "rnd k < 1" "0 < numLabels"
    and "label_loop rnd k 0 numLabels [JStr ''Paper''] = (result, k')"
  shows "distinct result \<and> hd result = JStr ''Paper'' \<and> 2 \<le> length result
       \<and> int (length result) \<le> 1 + numLabels"
proof -
  define randomLabel where
    "randomLabel = array_get labels_pool (\<lfloor>rnd k * of_nat (length labels_pool - 1)\<rfloor> + 1)"
  have new: "randomLabel \<noteq> JStr ''Paper''"
    unfolding randomLabel_def by (rule random_label_not_Paper [OF assms(1,2)])
  have step: "label_loop rnd (k + 1) 1 numLabels [JStr ''Paper'', randomLabel] = (result, k')"
    using assms(3,4) new
    by (subst (asm) label_loop.simps) (simp add: Let_def randomLabel_def)
  have "distinct [JStr ''Paper'', randomLabel]" using new by auto
  from label_loop_invariant [OF this _ step] assms(3) show ?thesis by auto
qed

lemma generate_paper_correct:
  assumes "in_unit_interval rnd" "generate_paper rnd k i = (p, k')"
  shows "paper_id p = toString i \<and> well_formed_labels p"
proof -
  have r: "0 \<le> rnd k" "rnd k < 1" "0 \<le> rnd (k + 1)" "rnd (k + 1) < 1"
    using assms(1) by (simp_all add: in_unit_interval_def)
  define numLabels where "numLabels = \<lfloor>rnd k * 3\<rfloor> + 1"
  have nl: "0 < numLabels" "numLabels \<le> 3"
    using random_floor_bounds [OF r(1,2), of 3] by (simp_all add: numLabels_def)
  obtain paperLabels k1 where ll: "label_loop rnd (k + 1) 0 numLabels [JStr ''Paper''] = (paperLabels, k1)"
    by (cases "label_loop rnd (k + 1) 0 numLabels [JStr ''Paper'']")
  from label_loop_first_push [OF r(3,4) nl(1) ll] nl(2)
  have wf: "distinct paperLabels \<and> hd paperLabels = JStr ''Paper'' \<and> 2 \<le> length paperLabels
      \<and> length paperLabels \<le> 4" by auto
  have "paper_id p = toString i" "paper_labels p = paperLabels"
    using assms(2) ll by (auto simp: generate_paper_def Let_def numLabels_def)
  with wf show ?thesis by (simp add: well_formed_labels_def)
qed

lemma generate_loop_correct:
  "in_unit_interval rnd \<Longrightarrow>
   \<exists>gs. generate_loop rnd k i ps = ps @ gs \<and> map paper_id gs = map toString [i..2000]
        \<and> (\<forall>p \<in> set gs. well_formed_labels p)"
proof (induction rnd k i ps rule: generate_loop.induct)
  case (1 rnd k i ps)
  show ?case
  proof (cases "i \<le> 2000")
    case False
    then show ?thesis by (simp add: generate_loop.simps)
  next
    case True
    obtain p k' where gp: "generate_paper rnd k i = (p, k')"
      by (cases "generate_paper rnd k i")
    from "1.IH" [OF True gp [symmetric] "1.prems"]
    obtain gs where gs: "generate_loop rnd k' (i + 1) (ps @ [p]) = (ps @ [p]) @ gs"
      "map paper_id gs = map toString [i + 1..2000]" "\<forall>p \<in> set gs. well_formed_labels p"
      by blast
    have eq: "generate_loop rnd k i ps = ps @ (p # gs)"
      using True gp gs(1) by (subst generate_loop.simps) simp
    have "map paper_id (p # gs) = map toString [i..2000]"
      using generate_paper_correct [OF "1.prems" gp] gs(2) True by (simp add: upto_rec1 [of i 2000])
    moreover have "\<forall>q \<in> set (p # gs). well_formed_labels q"
      using generate_paper_correct [OF "1.prems" gp] gs(3) by simp
    ultimately show ?thesis using eq by blast
  qed
qed

lemma tempPapers_ids: "map paper_id tempPapers = map toString [915..925]"
  by code_simp

lemma tempPapers_labels: "\<forall>p \<in> set tempPapers. well_formed_labels p \<and> length (paper_labels p) = 2"
  by (simp add: tempPapers_def well_formed_labels_def)


lemma tempPapers_length: "length tempPapers = 11"
  by (simp add: tempPapers_def)

lemma tempPapers_id_strings:
  "map paper_id tempPapers
     = [''915'', ''916'', ''917'', ''918'', ''919'', ''920'', ''921'', ''922'', ''923'', ''924'', ''925'']"
  by (simp add: tempPapers_def)

lemma toString_endpoints: "toString 926 = ''926''" "toString 2000 = ''2000''"
  by code_simp+

lemma upto_first: "i \<le> j \<Longrightarrow> [i..j] ! 0 = i"
  by (simp add: upto_rec1)

lemma upto_last: "i \<le> j \<Longrightarrow> last [i..j] = j"
  by (simp add: upto_rec2)

text \<open>
  Claim C7. Whatever \<^verbatim>\<open>Math.random()\<close> returns (numbers in \<open>[0, 1)\<close>), the exported
  list holds 1086 records: the 11 static records, with the ids \<^verbatim>\<open>"915"\<close> to \<^verbatim>\<open>"925"\<close>,
  followed by the generated records, whose ids are the numbers 926 to 2000 in increasing
  order. The labels of every record are free of duplicates and begin with \<^verbatim>\<open>"Paper"\<close>,
  and a generated record has between 2 and 4 labels.
\<close>

theorem C7_fallback_data:
  assumes "in_unit_interval rnd"
  shows "length (allPapers rnd) = 1086
       \<and> take 11 (allPapers rnd) = tempPapers
       \<and> map paper_id (take 11 (allPapers rnd))
           = [''915'', ''916'', ''917'', ''918'', ''919'', ''920'', ''921'', ''922'', ''923'', ''924'', ''925'']
       \<and> map paper_id (drop 11 (allPapers rnd)) = map toString [926..2000]
       \<and> paper_id (allPapers rnd ! 11) = ''926''
       \<and> paper_id (last (allPapers rnd)) = ''2000''
       \<and> (\<forall>p \<in> set (allPapers rnd).
             distinct (paper_labels p) \<and> paper_labels p \<noteq> [] \<and> hd (paper_labels p) = JStr ''Paper'')
       \<and> (\<forall>p \<in> set (drop 11 (allPapers rnd)).
             2 \<le> length (paper_labels p) \<and> length (paper_labels p) \<le> 4)"
proof -
  from generate_loop_correct [OF assms, of 0 926 tempPapers]
  obtain gs where all: "allPapers rnd = tempPapers @ gs"
    and ids: "map paper_id gs = map toString [926..2000]"
    and wf: "\<forall>p \<in> set gs. well_formed_labels p"
    unfolding allPapers_def generateMorePapers_def by blast
  have "length gs = length [926..(2000::int)]"
    using ids by (metis length_map)
  also have "\<dots> = 1075"
    unfolding length_upto by simp
  finally have len: "length gs = 1075" .
  have total: "length (allPapers rnd) = 1086"
    by (simp add: all len tempPapers_length)
  have tk: "take 11 (allPapers rnd) = tempPapers" and dr: "drop 11 (allPapers rnd) = gs"
    by (simp_all add: all tempPapers_length)
  have static: "map paper_id (take 11 (allPapers rnd))
           = [''915'', ''916'', ''917'', ''918'', ''919'', ''920'', ''921'', ''922'', ''923'', ''924'', ''925'']"
    by (simp only: tk tempPapers_id_strings)
  have generated_ids: "map paper_id (drop 11 (allPapers rnd)) = map toString [926..2000]"
    by (simp only: dr ids)
  have ne: "gs \<noteq> []" and pos: "0 < length gs" using len by auto
  have le: "(926::int) \<le> 2000" by simp
  have first: "paper_id (allPapers rnd ! 11) = ''926''"
  proof -
    have "allPapers rnd ! 11 = gs ! 0"
      by (simp add: all nth_append tempPapers_length)
    moreover have "paper_id (gs ! 0) = map paper_id gs ! 0"
      using pos by simp
    moreover have "0 < length [926..(2000::int)]"
      unfolding length_upto by simp
    then have "map toString [926..2000] ! 0 = toString ([926..2000] ! 0)"
      by (rule nth_map)
    ultimately show ?thesis
      by (simp only: ids upto_first [OF le] toString_endpoints)
  qed
  have lst: "paper_id (last (allPapers rnd)) = ''2000''"
  proof -
    have "last (allPapers rnd) = last gs" using ne by (simp add: all)
    moreover have "paper_id (last gs) = last (map paper_id gs)"
      using ne by (simp add: last_map)
    moreover have "[926..(2000::int)] \<noteq> []"
      unfolding upto_Nil by simp
    then have "last (map toString [926..2000]) = toString (last [926..2000])"
      by (rule last_map)
    ultimately show ?thesis
      by (simp only: ids upto_last [OF le] toString_endpoints)
  qed
  have labels: "\<forall>p \<in> set (allPapers rnd).
             distinct (paper_labels p) \<and> paper_labels p \<noteq> [] \<and> hd (paper_labels p) = JStr ''Paper''"
    using wf tempPapers_labels by (auto simp: all well_formed_labels_def)
  have generated: "\<forall>p \<in> set (drop 11 (allPapers rnd)).
             2 \<le> length (paper_labels p) \<and> length (paper_labels p) \<le> 4"
    using wf by (simp add: dr well_formed_labels_def)
  from total tk static generated_ids first lst labels generated show ?thesis
    by blast
qed

lemma example_random_in_unit_interval: "in_unit_interval (\<lambda>k. of_nat (k mod 7) / 7)"
  by (simp add: in_unit_interval_def)

theorem C7_fallback_data_witness:
  "in_unit_interval (\<lambda>k. of_nat (k mod 7) / 7)
   \<and> length (allPapers (\<lambda>k. of_nat (k mod 7) / 7)) = 1086
   \<and> take 11 (allPapers (\<lambda>k. of_nat (k mod 7) / 7)) = tempPapers
   \<and> paper_id (allPapers (\<lambda>k. of_nat (k mod 7) / 7) ! 11) = ''926''
   \<and> paper_id (last (allPapers (\<lambda>k. of_nat (k mod 7) / 7))) = ''2000''"
  using example_random_in_unit_interval
    C7_fallback_data [OF example_random_in_unit_interval]
  by blast

end
